theory Spec2Isabelle
  imports Complex_Main "HOL-Library.Word" "HOL-Library.Sublist"
begin

section \<open>Values shared by the whole client\<close>

text \<open>
  The package \<open>cosmosclient\<close> (file \<open>starport/pkg/cosmosclient/cosmosclient.go\<close>)
  is embedded function by function. Go's fixed-width integers are words, Go strings are
  byte strings (\<open>string\<close>), a \<open>nil\<close> error is \<open>None\<close>, and a run-time panic is
  a result of its own, so that a function which panics is never mistaken for one which
  returns an error.
\<close>

type_synonym uint64 = "64 word"
type_synonym uint32 = "32 word"
type_synonym byte = "8 word"
type_synonym bytes = "byte list"

text \<open>
  A Go \<open>error\<close> is a value with a message. \<open>errors.New\<close> and \<open>fmt.Errorf\<close> build an
  \<open>ErrorString\<close>; \<open>errors.Wrap err msg\<close> keeps the cause and prefixes the message.
\<close>

datatype error = ErrorString string | Wrap error string

fun Error :: "error \<Rightarrow> string" where
  "Error (ErrorString s) = s"
| "Error (Wrap cause msg) = msg @ '': '' @ Error cause"

datatype 'a outcome = Return 'a | Panic string

text \<open>\<open>strings.Contains s substr\<close>: \<open>substr\<close> occurs in \<open>s\<close> as a contiguous run.\<close>

fun HasPrefix :: "string \<Rightarrow> string \<Rightarrow> bool" where
  "HasPrefix s [] = True"
| "HasPrefix [] (p # ps) = False"
| "HasPrefix (c # s) (p # ps) = (c = p \<and> HasPrefix s ps)"

fun Contains :: "string \<Rightarrow> string \<Rightarrow> bool" where
  "Contains [] substr = (substr = [])"
| "Contains (c # s) substr = (HasPrefix (c # s) substr \<or> Contains s substr)"

text \<open>The verb \<open>%d\<close> of \<open>fmt\<close> on an unsigned value: its decimal digits.\<close>

definition digit :: "nat \<Rightarrow> char" where
  "digit n = ''0123456789'' ! n"

fun FormatUint :: "nat \<Rightarrow> string" where
  "FormatUint n = (if n < 10 then [digit n] else FormatUint (n div 10) @ [digit (n mod 10)])"

declare FormatUint.simps [simp del]

text \<open>The verb \<open>%q\<close> of \<open>fmt\<close> on a string with nothing to escape: the string in double quotes.\<close>

definition Quote :: "string \<Rightarrow> string" where
  "Quote s = [CHR 0x22] @ s @ [CHR 0x22]"

section \<open>Broadcast results\<close>

record TxResponse =
  Code :: uint32
  RawLog :: string
  Data :: string
  TxHash :: string

text \<open>
  \<open>handleBroadcastResult(resp *sdktypes.TxResponse, err error) error\<close>. The response is
  a pointer; reading \<open>resp.Code\<close> through a nil pointer panics.
\<close>

definition handleBroadcastResult :: "TxResponse option \<Rightarrow> error option \<Rightarrow> error option outcome" where
  "handleBroadcastResult resp err =
     (case err of
        Some e \<Rightarrow>
          if Contains (Error e) ''not found''
          then Return (Some (ErrorString ''make sure that your SPN account has enough balance''))
          else Return (Some e)
      | None \<Rightarrow>
          (case resp of
             None \<Rightarrow> Panic ''runtime error: invalid memory address or nil pointer dereference''
           | Some r \<Rightarrow>
               if Code r > 0
               then Return (Some (ErrorString
                      (''SPN error with '' @ [CHR 0x27] @ FormatUint (unat (Code r)) @ [CHR 0x27]
                        @ '' code: '' @ RawLog r)))
               else Return None))"


section \<open>Decoding a response\<close>

text \<open>
  \<open>encoding/hex\<close>: \<open>fromHexChar\<close> accepts both cases; \<open>DecodeString\<close> reports the first
  invalid byte, and a string of odd length (after checking its last byte) as \<open>ErrLength\<close>.
\<close>

definition fromHexChar :: "char \<Rightarrow> nat option" where
  "fromHexChar c =
     (let n = (of_char c :: nat) in
      if 48 \<le> n \<and> n \<le> 57 then Some (n - 48)
      else if 97 \<le> n \<and> n \<le> 102 then Some (n - 97 + 10)
      else if 65 \<le> n \<and> n \<le> 70 then Some (n - 65 + 10)
      else None)"

definition InvalidByteError :: "char \<Rightarrow> error" where
  "InvalidByteError c = ErrorString (''encoding/hex: invalid byte: '' @ [c])"

definition ErrLength :: error where
  "ErrLength = ErrorString ''encoding/hex: odd length hex string''"

fun DecodeString :: "string \<Rightarrow> error + bytes" where
  "DecodeString [] = Inr []"
| "DecodeString [c] =
     (case fromHexChar c of None \<Rightarrow> Inl (InvalidByteError c) | Some a \<Rightarrow> Inl ErrLength)"
| "DecodeString (c # d # rest) =
     (case fromHexChar c of
        None \<Rightarrow> Inl (InvalidByteError c)
      | Some a \<Rightarrow>
          (case fromHexChar d of
             None \<Rightarrow> Inl (InvalidByteError d)
           | Some b \<Rightarrow>
               (case DecodeString rest of
                  Inl err \<Rightarrow> Inl err
                | Inr bs \<Rightarrow> Inr (word_of_nat (16 * a + b) # bs))))"

definition hextable :: string where
  "hextable = ''0123456789abcdef''"

fun EncodeToString :: "bytes \<Rightarrow> string" where
  "EncodeToString [] = []"
| "EncodeToString (v # vs) =
     hextable ! (unat v div 16) # hextable ! (unat v mod 16) # EncodeToString vs"

text \<open>
  \<open>sdktypes.TxMsgData\<close> is the envelope of the per-message results, \<open>sdktypes.MsgData\<close> one
  result, \<open>prototypes.Any\<close> a typed payload. The codec of a \<open>Response\<close> is an interface value
  (\<open>codec.Codec\<close>); the model keeps of it the one method \<open>Decode\<close> calls, unmarshalling an
  envelope. The target of \<open>Decode\<close> is a \<open>proto.Message\<close>: its registered name and its
  unmarshaller, whose result stands for the contents the pointer holds afterwards.
\<close>

record MsgData =
  MsgType :: string
  ResultData :: bytes

record TxMsgData =
  Results :: "MsgData list"

record Any =
  TypeUrl :: string
  Value :: bytes

record 'v Message =
  MessageName :: string
  Unmarshal :: "bytes \<Rightarrow> error + 'v"

record Response =
  codec :: "(bytes \<Rightarrow> error + TxMsgData) option"
  txResponse :: "TxResponse option"

text \<open>
  \<open>prototypes.AnyMessageName\<close> and \<open>prototypes.UnmarshalAny\<close> of gogo/protobuf, for a
  target that is a concrete message: the name is what follows the last slash of the type
  URL, it must be the target's name, and then the payload is unmarshalled into the target.
\<close>

definition AnyMessageName :: "Any \<Rightarrow> error + string" where
  "AnyMessageName any =
     (if CHR ''/'' \<in> set (TypeUrl any)
      then Inr (rev (takeWhile (\<lambda>c. c \<noteq> CHR ''/'') (rev (TypeUrl any))))
      else Inl (ErrorString (''message type url '' @ Quote (TypeUrl any) @ '' is invalid'')))"

definition UnmarshalAny :: "Any \<Rightarrow> 'v Message \<Rightarrow> error + 'v" where
  "UnmarshalAny any pb =
     (case AnyMessageName any of
        Inl err \<Rightarrow> Inl err
      | Inr aname \<Rightarrow>
          if aname \<noteq> MessageName pb
          then Inl (ErrorString (''mismatched message type: got '' @ Quote aname
                 @ '' want '' @ Quote (MessageName pb)))
          else Unmarshal pb (Value any))"

definition nilDereference :: string where
  "nilDereference = ''runtime error: invalid memory address or nil pointer dereference''"

text \<open>
  \<open>func (r Response) Decode(message proto.Message) error\<close>. \<open>Inr v\<close> is a nil error with
  \<open>v\<close> written into \<open>message\<close>. \<open>r.Data\<close> reads through the embedded pointer, and
  \<open>txMsgData.Data[0]\<close> indexes the result list without a length check.
\<close>

definition Decode :: "Response \<Rightarrow> 'v Message \<Rightarrow> (error + 'v) outcome" where
  "Decode r message =
     (case txResponse r of
        None \<Rightarrow> Panic nilDereference
      | Some resp \<Rightarrow>
          (case DecodeString (Data resp) of
             Inl err \<Rightarrow> Return (Inl err)
           | Inr data \<Rightarrow>
               (case codec r of
                  None \<Rightarrow> Panic nilDereference
                | Some cdc \<Rightarrow>
                    (case cdc data of
                       Inl err \<Rightarrow> Return (Inl err)
                     | Inr txMsgData \<Rightarrow>
                         (case Results txMsgData of
                            [] \<Rightarrow> Panic ''runtime error: index out of range [0] with length 0''
                          | resData # later \<Rightarrow>
                              Return (UnmarshalAny
                                \<lparr>TypeUrl = MsgType resData @ ''Response'',
                                 Value = ResultData resData\<rparr> message))))))"

text \<open>
  The envelope format as the ledger produces it for one message result: the result of type
  \<open>T\<close> marshalled, wrapped with the message's type tag into an envelope of one entry, the
  envelope marshalled and written in hexadecimal.
\<close>

definition EncodeResult ::
  "(TxMsgData \<Rightarrow> bytes) \<Rightarrow> ('v \<Rightarrow> bytes) \<Rightarrow> string \<Rightarrow> 'v \<Rightarrow> string" where
  "EncodeResult marshalEnvelope marshal msgType v =
     EncodeToString (marshalEnvelope \<lparr>Results = [\<lparr>MsgType = msgType, ResultData = marshal v\<rparr>]\<rparr>)"


section \<open>The client, its collaborators and the world it acts on\<close>

text \<open>
  A message is opaque to the client: a type tag and a payload. A coin's amount is an
  \<open>sdktypes.Int\<close>, an integer of arbitrary size, and \<open>Int.Uint64\<close> panics on a value that a
  \<open>uint64\<close> cannot hold.
\<close>

record Msg =
  msgTypeURL :: string
  msgPayload :: bytes

record Coin =
  Denom :: string
  Amount :: int

definition Uint64 :: "int \<Rightarrow> uint64 outcome" where
  "Uint64 i = (if 0 \<le> i \<and> i < 2 ^ 64 then Return (word_of_int i) else Panic ''Uint64() out of bounds'')"

datatype SignMode = SIGN_MODE_UNSPECIFIED | SIGN_MODE_DIRECT | SIGN_MODE_TEXTUAL | SIGN_MODE_LEGACY_AMINO_JSON

text \<open>
  \<open>tx.Factory\<close>, \<open>client.Context\<close>, \<open>cosmosaccount.Account\<close> and \<open>Client\<close>, with the fields
  this package sets or reads. The keyring, the account retriever and the transaction
  configuration that a factory and a context also carry are collaborators; they are the
  oracles of \<open>Env\<close> below.
\<close>

record Factory =
  chainID :: string
  accountNumber :: uint64
  sequence :: uint64
  gas :: uint64
  gasAdjustment :: real
  signMode :: SignMode

record Context =
  ChainID :: string
  HomeDir :: string
  FromName :: string
  FromAddress :: bytes
  Codec :: "(bytes \<Rightarrow> error + TxMsgData) option"

text \<open>
  Modelled from the spec: an account of the key store, \<open>cosmosaccount.Account\<close> (a package of
  this repository that is not among the sources): a logical name with the key material its
  address derives from, here the address bytes themselves. Looking an account up by name
  and writing its address under a prefix are oracles of \<open>Env\<close>.
\<close>

record Account =
  Name :: string
  GetAddress :: bytes

record Client =
  Factory :: Factory
  Context :: Context
  addressPrefix :: string
  useFaucet :: bool
  faucetAddress :: string
  faucetDenom :: string
  faucetMinAmount :: uint64

definition defaultGasAdjustment :: real where
  "defaultGasAdjustment = 1.0"

definition defaultGasLimit :: uint64 where
  "defaultGasLimit = 300000"

definition newFactory :: "Context \<Rightarrow> Factory" where
  "newFactory clientCtx =
     \<lparr>chainID = ChainID clientCtx, accountNumber = 0, sequence = 0, gas = defaultGasLimit,
      gasAdjustment = defaultGasAdjustment, signMode = SIGN_MODE_UNSPECIFIED\<rparr>"

text \<open>
  Modelled from the spec: the response type of the faucet client, \<open>cosmosfaucet.TransferResponse\<close>
  (a package of this repository that is not among the sources): a top-level error and the
  transfers, each with its recipient, its coin and its own error; an empty string is no
  error.
\<close>

record Transfer =
  transferRecipient :: string
  transferCoin :: string
  transferError :: string

record TransferResponse =
  responseError :: string
  Transfers :: "Transfer list"

text \<open>
  A transaction under construction (\<open>client.TxBuilder\<close>): its messages, the gas limit it
  declares, and its signatures, each with the signer data (chain, account number,
  sequence) it was made over.
\<close>

record SignerData =
  signerChainID :: string
  AccountNumber :: uint64
  Sequence :: uint64

record Tx =
  Msgs :: "Msg list"
  GasLimit :: uint64
  Signatures :: "(SignerData \<times> bytes) list"

text \<open>
  What the client does to the world outside its own variables is recorded as a trace of
  events, in order. The world also holds the clock (in nanoseconds, the unit of
  \<open>time.Duration\<close>), the package-level mutex \<open>mconf\<close> and the process-wide bech32 account
  prefixes of \<open>sdktypes.Config\<close>.
\<close>

datatype event =
    EvAllBalances string
  | EvFaucetTransfer string string
  | EvSleep nat
  | EvLock
  | EvUnlock
  | EvSetBech32PrefixForAccount string string
  | EvEnsureExists bytes
  | EvGetAccountNumberSequence bytes
  | EvCalculateGas Factory "Msg list"
  | EvBuildUnsignedTx Factory "Msg list"
  | EvSign Factory string "string \<times> string"
  | EvEncode Tx
  | EvBroadcastTx bytes

record World =
  now :: nat
  mconf :: bool
  bech32Account :: "string \<times> string"
  trace :: "event list"

text \<open>
  The collaborators: key storage, ledger node, faucet and the Cosmos SDK's transaction
  functions. Each answer may depend on the world at the moment of the call (its clock, its
  address configuration, what happened before); \<open>took\<close> is the time a call takes.
\<close>

record Env =
  registry_GetByName :: "string \<Rightarrow> error + Account"
  account_Address :: "Account \<Rightarrow> string \<Rightarrow> string"
  bank_AllBalances :: "World \<Rightarrow> nat option \<Rightarrow> string \<Rightarrow> error + Coin list"
  faucet_Transfer :: "World \<Rightarrow> string \<Rightarrow> string \<Rightarrow> error + TransferResponse"
  retriever_EnsureExists :: "World \<Rightarrow> bytes \<Rightarrow> error option"
  retriever_GetAccountNumberSequence :: "World \<Rightarrow> bytes \<Rightarrow> error + uint64 \<times> uint64"
  tx_CalculateGas :: "World \<Rightarrow> Context \<Rightarrow> Factory \<Rightarrow> Msg list \<Rightarrow> error + uint64"
  tx_BuildRefused :: "Factory \<Rightarrow> Msg list \<Rightarrow> error option"
  keyring_Sign :: "World \<Rightarrow> string \<Rightarrow> SignerData \<Rightarrow> Tx \<Rightarrow> error + bytes"
  txConfig_TxEncoder :: "Tx \<Rightarrow> error + bytes"
  rpc_BroadcastTx :: "World \<Rightarrow> bytes \<Rightarrow> TxResponse option \<times> error option"
  took :: "World \<Rightarrow> event \<Rightarrow> nat"

definition call :: "Env \<Rightarrow> event \<Rightarrow> World \<Rightarrow> World" where
  "call env ev w = w\<lparr>now := now w + took env w ev, trace := trace w @ [ev]\<rparr>"

definition sleep :: "nat \<Rightarrow> World \<Rightarrow> World" where
  "sleep d w = w\<lparr>now := now w + d, trace := trace w @ [EvSleep d]\<rparr>"

definition Second :: nat where
  "Second = 1000000000"

definition Minute :: nat where
  "Minute = 60 * Second"

definition FaucetTransferEnsureDuration :: nat where
  "FaucetTransferEnsureDuration = Minute * 2"

section \<open>Funding an account before a broadcast\<close>

text \<open>
  The loop of \<open>checkAccountBalance\<close> over the balances: \<open>Return True\<close> is its
  \<open>return nil\<close>, \<open>Return False\<close> is falling out of the loop.
\<close>

fun balanceIsEnough :: "string \<Rightarrow> uint64 \<Rightarrow> Coin list \<Rightarrow> bool outcome" where
  "balanceIsEnough denom minAmount [] = Return False"
| "balanceIsEnough denom minAmount (coin # rest) =
     (if Denom coin = denom
      then (case Uint64 (Amount coin) of
              Panic p \<Rightarrow> Panic p
            | Return amount \<Rightarrow>
                if amount \<ge> minAmount then Return True else balanceIsEnough denom minAmount rest)
      else balanceIsEnough denom minAmount rest)"

definition notEnoughBalance :: error where
  "notEnoughBalance = ErrorString ''account has not enough balance''"

definition checkAccountBalance ::
  "Env \<Rightarrow> Client \<Rightarrow> nat option \<Rightarrow> string \<Rightarrow> World \<Rightarrow> error option outcome \<times> World" where
  "checkAccountBalance env c ctx address w =
     (let w1 = call env (EvAllBalances address) w in
      case bank_AllBalances env w ctx address of
        Inl err \<Rightarrow> (Return (Some err), w1)
      | Inr balances \<Rightarrow>
          (case (if length balances > 0
                 then balanceIsEnough (faucetDenom c) (faucetMinAmount c) balances
                 else Return False) of
             Panic p \<Rightarrow> (Panic p, w1)
           | Return True \<Rightarrow> (Return None, w1)
           | Return False \<Rightarrow> (Return (Some notEnoughBalance), w1)))"

lemma checkAccountBalance_now: "now w \<le> now (snd (checkAccountBalance env c ctx address w))"
  by (simp add: checkAccountBalance_def call_def Let_def split: sum.splits outcome.splits bool.splits)

text \<open>
  \<open>backoff.Retry\<close> of cenkalti/backoff, applied as \<open>makeSureAccountHasTokens\<close> applies it:
  the operation is \<open>checkAccountBalance\<close> under the context with the deadline, the back-off
  is constant (one second) and bound to that context. After a failed attempt the loop
  stops when the context is done; otherwise it waits for the timer or for the context,
  whichever comes first (the context, where both come at once), and returns the
  context's error when the context came first.
\<close>

definition DeadlineExceeded :: error where
  "DeadlineExceeded = ErrorString ''context deadline exceeded''"

function Retry :: "Env \<Rightarrow> Client \<Rightarrow> nat \<Rightarrow> string \<Rightarrow> World \<Rightarrow> error option outcome \<times> World" where
  "Retry env c deadline address w =
     (case checkAccountBalance env c (Some deadline) address w of
        (Panic p, w1) \<Rightarrow> (Panic p, w1)
      | (Return None, w1) \<Rightarrow> (Return None, w1)
      | (Return (Some err), w1) \<Rightarrow>
          if deadline \<le> now w1 then (Return (Some DeadlineExceeded), w1)
          else if deadline - now w1 \<le> Second
               then (Return (Some DeadlineExceeded), sleep (deadline - now w1) w1)
               else Retry env c deadline address (sleep Second w1))"
  by pat_completeness auto
termination
proof (relation "measure (\<lambda>(env, c, deadline, address, w). deadline - now w)")
  show "wf (measure (\<lambda>(env, c, deadline, address, w). deadline - now w))"
    by simp
next
  fix env c deadline address w x1 x2 x2a x2b
  assume r: "(x1, x2) = checkAccountBalance env c (Some deadline) address w"
    and "\<not> deadline \<le> now x2" "\<not> deadline - now x2 \<le> Second"
  moreover have "now w \<le> now x2"
    using checkAccountBalance_now [of w env c "Some deadline" address] r [symmetric] by simp
  ultimately show "((env, c, deadline, address, sleep Second x2), env, c, deadline, address, w)
      \<in> measure (\<lambda>(env, c, deadline, address, w). deadline - now w)"
    by (simp add: sleep_def Second_def)
qed

declare Retry.simps [simp del]

text \<open>\<open>context.WithTimeout\<close>: the deadline of the derived context.\<close>

definition WithTimeout :: "nat option \<Rightarrow> nat \<Rightarrow> World \<Rightarrow> nat" where
  "WithTimeout parent d w = (case parent of None \<Rightarrow> now w + d | Some p \<Rightarrow> min p (now w + d))"

text \<open>The loop over \<open>faucetResp.Transfers\<close>: the first transfer error that is not empty.\<close>

fun transfersError :: "Transfer list \<Rightarrow> string option" where
  "transfersError [] = None"
| "transfersError (transfer # rest) =
     (if transferError transfer \<noteq> '''' then Some (transferError transfer) else transfersError rest)"

definition makeSureAccountHasTokens ::
  "Env \<Rightarrow> Client \<Rightarrow> nat option \<Rightarrow> string \<Rightarrow> World \<Rightarrow> error option outcome \<times> World" where
  "makeSureAccountHasTokens env c ctx address w =
     (case checkAccountBalance env c ctx address w of
        (Panic p, w1) \<Rightarrow> (Panic p, w1)
      | (Return None, w1) \<Rightarrow> (Return None, w1)
      | (Return (Some noBalance), w1) \<Rightarrow>
          (let w2 = call env (EvFaucetTransfer (faucetAddress c) address) w1 in
           case faucet_Transfer env w1 (faucetAddress c) address of
             Inl err \<Rightarrow> (Return (Some (Wrap err ''faucet server request failed'')), w2)
           | Inr faucetResp \<Rightarrow>
               if responseError faucetResp \<noteq> ''''
               then (Return (Some (ErrorString
                       (''cannot retrieve tokens from faucet: '' @ responseError faucetResp))), w2)
               else (case transfersError (Transfers faucetResp) of
                       Some transferErr \<Rightarrow>
                         (Return (Some (ErrorString
                            (''cannot retrieve tokens from faucet: '' @ transferErr))), w2)
                     | None \<Rightarrow>
                         Retry env c (WithTimeout ctx FaucetTransferEnsureDuration w2) address w2)))"

definition prepareBroadcast ::
  "Env \<Rightarrow> Client \<Rightarrow> nat option \<Rightarrow> string \<Rightarrow> Msg list \<Rightarrow> World \<Rightarrow> error option outcome \<times> World" where
  "prepareBroadcast env c ctx accountName msgs w =
     (case registry_GetByName env accountName of
        Inl err \<Rightarrow> (Return (Some err), w)
      | Inr account \<Rightarrow>
          if useFaucet c
          then makeSureAccountHasTokens env c ctx (account_Address env account (addressPrefix c)) w
          else (Return None, w))"

section \<open>Preparing the factory, estimating gas, signing and broadcasting\<close>

text \<open>
  \<open>prepareFactory(clientCtx client.Context, txf tx.Factory) (tx.Factory, error)\<close>. The two
  calls to the account retriever are the events \<open>EvEnsureExists\<close> and
  \<open>EvGetAccountNumberSequence\<close>.
\<close>

definition prepareFactory ::
  "Env \<Rightarrow> Context \<Rightarrow> Factory \<Rightarrow> World \<Rightarrow> (Factory \<times> error option) \<times> World" where
  "prepareFactory env clientCtx txf w =
     (let from = FromAddress clientCtx;
          w1 = call env (EvEnsureExists from) w in
      case retriever_EnsureExists env w from of
        Some err \<Rightarrow> ((txf, Some err), w1)
      | None \<Rightarrow>
          (let initNum = accountNumber txf; initSeq = sequence txf in
           if initNum = 0 \<or> initSeq = 0
           then (let w2 = call env (EvGetAccountNumberSequence from) w1 in
                 case retriever_GetAccountNumberSequence env w1 from of
                   Inl err \<Rightarrow> ((txf, Some err), w2)
                 | Inr (num, seq) \<Rightarrow>
                     (let txf1 = (if initNum = 0 then txf\<lparr>accountNumber := num\<rparr> else txf);
                          txf2 = (if initSeq = 0 then txf1\<lparr>sequence := seq\<rparr> else txf1)
                      in ((txf2, None), w2)))
           else ((txf, None), w1)))"

text \<open>
  \<open>tx.BuildUnsignedTx\<close> and \<open>tx.Sign\<close> of the Cosmos SDK, as far as this package relies on
  them: a transaction built from a factory carries the messages and declares the factory's
  gas as its limit; signing asks the keyring for a signature by the named account over
  the factory's chain, account number and sequence, and (overwriting) attaches it.
\<close>

definition BuildUnsignedTx :: "Env \<Rightarrow> Factory \<Rightarrow> Msg list \<Rightarrow> error + Tx" where
  "BuildUnsignedTx env txf msgs =
     (case tx_BuildRefused env txf msgs of
        Some err \<Rightarrow> Inl err
      | None \<Rightarrow> Inr \<lparr>Msgs = msgs, GasLimit = gas txf, Signatures = []\<rparr>)"

definition Sign :: "Env \<Rightarrow> World \<Rightarrow> Factory \<Rightarrow> string \<Rightarrow> Tx \<Rightarrow> error + Tx" where
  "Sign env w txf name txBuilder =
     (let signerData = \<lparr>signerChainID = chainID txf, AccountNumber = accountNumber txf,
                         Sequence = sequence txf\<rparr> in
      case keyring_Sign env w name signerData txBuilder of
        Inl err \<Rightarrow> Inl err
      | Inr sig \<Rightarrow> Inr (txBuilder\<lparr>Signatures := [(signerData, sig)]\<rparr>))"

text \<open>
  The function value that \<open>BroadcastTxWithProvision\<close> returns closes over \<open>txf\<close>, \<open>msgs\<close>,
  \<open>context\<close> and \<open>accountName\<close>; \<open>Provision\<close> is that closure and \<open>broadcast\<close> its body.
  \<open>EvSign\<close> records the address configuration in force when the signature is made.
\<close>

record Provision =
  provisionFactory :: Factory
  provisionMsgs :: "Msg list"
  provisionContext :: Context
  provisionAccountName :: string

definition emptyResponse :: Response where
  "emptyResponse = \<lparr>codec = None, txResponse = None\<rparr>"

definition broadcast ::
  "Env \<Rightarrow> Provision \<Rightarrow> World \<Rightarrow> (Response \<times> error option) outcome \<times> World" where
  "broadcast env p w =
     (let txf = provisionFactory p; msgs = provisionMsgs p; context = provisionContext p;
          accountName = provisionAccountName p;
          w1 = call env (EvBuildUnsignedTx txf msgs) w in
      case BuildUnsignedTx env txf msgs of
        Inl err \<Rightarrow> (Return (emptyResponse, Some err), w1)
      | Inr txUnsigned \<Rightarrow>
          (let w2 = call env (EvSign txf accountName (bech32Account w1)) w1 in
           case Sign env w1 txf accountName txUnsigned of
             Inl err \<Rightarrow> (Return (emptyResponse, Some err), w2)
           | Inr txSigned \<Rightarrow>
               (let w3 = call env (EvEncode txSigned) w2 in
                case txConfig_TxEncoder env txSigned of
                  Inl err \<Rightarrow> (Return (emptyResponse, Some err), w3)
                | Inr txBytes \<Rightarrow>
                    (let w4 = call env (EvBroadcastTx txBytes) w3;
                         (resp, err) = rpc_BroadcastTx env w3 txBytes in
                     case handleBroadcastResult resp err of
                       Panic msg \<Rightarrow> (Panic msg, w4)
                     | Return result \<Rightarrow>
                         (Return (\<lparr>codec = Codec context, txResponse = resp\<rparr>, result), w4)))))"

text \<open>
  \<open>mconf.Lock()\<close> does not return while the mutex is held: \<open>None\<close>. The deferred
  \<open>mconf.Unlock()\<close> runs when the function that locked returns.
\<close>

definition Lock :: "World \<Rightarrow> World option" where
  "Lock w = (if mconf w then None else Some (w\<lparr>mconf := True, trace := trace w @ [EvLock]\<rparr>))"

definition Unlock :: "World \<Rightarrow> World" where
  "Unlock w = w\<lparr>mconf := False, trace := trace w @ [EvUnlock]\<rparr>"

definition SetBech32PrefixForAccount :: "string \<Rightarrow> string \<Rightarrow> World \<Rightarrow> World" where
  "SetBech32PrefixForAccount accPrefix pubKeyPrefix w =
     w\<lparr>bech32Account := (accPrefix, pubKeyPrefix),
       trace := trace w @ [EvSetBech32PrefixForAccount accPrefix pubKeyPrefix]\<rparr>"

definition Address :: "Env \<Rightarrow> string \<Rightarrow> error + bytes" where
  "Address env accountName =
     (case registry_GetByName env accountName of
        Inl err \<Rightarrow> Inl err
      | Inr account \<Rightarrow> Inr (GetAddress account))"

type_synonym provisioned = "uint64 \<times> Provision option \<times> error option"

text \<open>
  The part of \<open>BroadcastTxWithProvision\<close> that runs with \<open>mconf\<close> held, between
  \<open>mconf.Lock()\<close> and the deferred \<open>mconf.Unlock()\<close>.
\<close>

definition provisionLocked ::
  "Env \<Rightarrow> Client \<Rightarrow> string \<Rightarrow> Msg list \<Rightarrow> World \<Rightarrow> provisioned \<times> World" where
  "provisionLocked env c accountName msgs w =
     (let w1 = SetBech32PrefixForAccount (addressPrefix c) (addressPrefix c @ ''pub'') w in
      case Address env accountName of
        Inl err \<Rightarrow> ((0, None, Some err), w1)
      | Inr accountAddress \<Rightarrow>
          (let context = (Context c)\<lparr>FromName := accountName, FromAddress := accountAddress\<rparr> in
           case prepareFactory env context (Factory c) w1 of
             ((txf, Some err), w2) \<Rightarrow> ((0, None, Some err), w2)
           | ((txf, None), w2) \<Rightarrow>
               (let w3 = call env (EvCalculateGas txf msgs) w2 in
                case tx_CalculateGas env w2 context txf msgs of
                  Inl err \<Rightarrow> ((0, None, Some err), w3)
                | Inr simulated \<Rightarrow>
                    (let padded = simulated + 10000;
                         txf = txf\<lparr>gas := padded\<rparr>
                     in ((padded, Some \<lparr>provisionFactory = txf, provisionMsgs = msgs,
                                     provisionContext = context,
                                     provisionAccountName = accountName\<rparr>, None), w3)))))"

definition BroadcastTxWithProvision ::
  "Env \<Rightarrow> Client \<Rightarrow> string \<Rightarrow> Msg list \<Rightarrow> World \<Rightarrow> (provisioned outcome \<times> World) option" where
  "BroadcastTxWithProvision env c accountName msgs w =
     (case prepareBroadcast env c None accountName msgs w of
        (Panic msg, w1) \<Rightarrow> Some (Panic msg, w1)
      | (Return (Some err), w1) \<Rightarrow> Some (Return (0, None, Some err), w1)
      | (Return None, w1) \<Rightarrow>
          (case Lock w1 of
             None \<Rightarrow> None
           | Some w2 \<Rightarrow>
               (let (result, w3) = provisionLocked env c accountName msgs w2
                in Some (Return result, Unlock w3))))"

definition runProvision ::
  "Env \<Rightarrow> (provisioned outcome \<times> World) option
     \<Rightarrow> ((Response \<times> error option) outcome \<times> World) option" where
  "runProvision env r =
     (case r of
        None \<Rightarrow> None
      | Some (Panic msg, w) \<Rightarrow> Some (Panic msg, w)
      | Some (Return (padded, provision, Some err), w) \<Rightarrow> Some (Return (emptyResponse, Some err), w)
      | Some (Return (padded, None, None), w) \<Rightarrow> Some (Panic nilDereference, w)
      | Some (Return (padded, Some p, None), w) \<Rightarrow> Some (broadcast env p w))"

definition BroadcastTx ::
  "Env \<Rightarrow> Client \<Rightarrow> string \<Rightarrow> Msg list \<Rightarrow> World
     \<Rightarrow> ((Response \<times> error option) outcome \<times> World) option" where
  "BroadcastTx env c accountName msgs w =
     runProvision env (BroadcastTxWithProvision env c accountName msgs w)"

text \<open>
  \<open>BroadcastTxWithProvisionCreateAccount\<close>: the same steps, with \<open>txf := c.Factory\<close> in the
  place of the call to \<open>prepareFactory\<close>.
\<close>

definition provisionLockedCreateAccount ::
  "Env \<Rightarrow> Client \<Rightarrow> string \<Rightarrow> Msg list \<Rightarrow> World \<Rightarrow> provisioned \<times> World" where
  "provisionLockedCreateAccount env c accountName msgs w =
     (let w1 = SetBech32PrefixForAccount (addressPrefix c) (addressPrefix c @ ''pub'') w in
      case Address env accountName of
        Inl err \<Rightarrow> ((0, None, Some err), w1)
      | Inr accountAddress \<Rightarrow>
          (let context = (Context c)\<lparr>FromName := accountName, FromAddress := accountAddress\<rparr>;
               txf = Factory c;
               w3 = call env (EvCalculateGas txf msgs) w1 in
           case tx_CalculateGas env w1 context txf msgs of
             Inl err \<Rightarrow> ((0, None, Some err), w3)
           | Inr simulated \<Rightarrow>
               (let padded = simulated + 10000;
                    txf = txf\<lparr>gas := padded\<rparr>
                in ((padded, Some \<lparr>provisionFactory = txf, provisionMsgs = msgs,
                                provisionContext = context,
                                provisionAccountName = accountName\<rparr>, None), w3))))"

definition BroadcastTxWithProvisionCreateAccount ::
  "Env \<Rightarrow> Client \<Rightarrow> string \<Rightarrow> Msg list \<Rightarrow> World \<Rightarrow> (provisioned outcome \<times> World) option" where
  "BroadcastTxWithProvisionCreateAccount env c accountName msgs w =
     (case prepareBroadcast env c None accountName msgs w of
        (Panic msg, w1) \<Rightarrow> Some (Panic msg, w1)
      | (Return (Some err), w1) \<Rightarrow> Some (Return (0, None, Some err), w1)
      | (Return None, w1) \<Rightarrow>
          (case Lock w1 of
             None \<Rightarrow> None
           | Some w2 \<Rightarrow>
               (let (result, w3) = provisionLockedCreateAccount env c accountName msgs w2
                in Some (Return result, Unlock w3))))"

definition BroadcastTxCreateAccount ::
  "Env \<Rightarrow> Client \<Rightarrow> string \<Rightarrow> Msg list \<Rightarrow> World
     \<Rightarrow> ((Response \<times> error option) outcome \<times> World) option" where
  "BroadcastTxCreateAccount env c accountName msgs w =
     runProvision env (BroadcastTxWithProvisionCreateAccount env c accountName msgs w)"

section \<open>Reading a trace\<close>

text \<open>
  The events a call has added to the trace, between the world it started in and the world
  it ended in, and the number of account-number/sequence queries among some events.
\<close>

definition issued :: "World \<Rightarrow> World \<Rightarrow> event list" where
  "issued w w' = drop (length (trace w)) (trace w')"

fun isNumberSequenceQuery :: "event \<Rightarrow> bool" where
  "isNumberSequenceQuery (EvGetAccountNumberSequence a) = True"
| "isNumberSequenceQuery ev = False"

definition numberSequenceQueries :: "event list \<Rightarrow> nat" where
  "numberSequenceQueries evs = length (filter isNumberSequenceQuery evs)"

text \<open>
  The trace of a polling loop for an address: balance queries for that address, separated
  by sleeps of one second; after the last query there may be one more sleep, of at most
  one second (the wait that the deadline cut short).
\<close>

fun pollTrace :: "string \<Rightarrow> event list \<Rightarrow> bool" where
  "pollTrace address [EvAllBalances a] = (a = address)"
| "pollTrace address [EvAllBalances a, EvSleep d] = (a = address \<and> d \<le> Second)"
| "pollTrace address (EvAllBalances a # EvSleep d # rest) =
     (a = address \<and> d = Second \<and> pollTrace address rest)"
| "pollTrace address evs = False"

fun isFaucetTransfer :: "event \<Rightarrow> bool" where
  "isFaucetTransfer (EvFaucetTransfer faucet address) = True"
| "isFaucetTransfer ev = False"

text \<open>
  Kinds of events: those of the funding step (balance queries, faucet requests, sleeps),
  the two calls to the account retriever, and the simulation; and the part of a trace
  that precedes the first simulation.
\<close>

fun isFundingEvent :: "event \<Rightarrow> bool" where
  "isFundingEvent (EvAllBalances address) = True"
| "isFundingEvent (EvFaucetTransfer faucet address) = True"
| "isFundingEvent (EvSleep d) = True"
| "isFundingEvent ev = False"

fun isRetrieverEvent :: "event \<Rightarrow> bool" where
  "isRetrieverEvent (EvEnsureExists address) = True"
| "isRetrieverEvent (EvGetAccountNumberSequence address) = True"
| "isRetrieverEvent ev = False"

fun isCalculateGas :: "event \<Rightarrow> bool" where
  "isCalculateGas (EvCalculateGas txf msgs) = True"
| "isCalculateGas ev = False"

definition beforeCalculateGas :: "event list \<Rightarrow> event list" where
  "beforeCalculateGas evs = takeWhile (\<lambda>ev. \<not> isCalculateGas ev) evs"

fun isSign :: "event \<Rightarrow> bool" where
  "isSign (EvSign txf name config) = True"
| "isSign ev = False"

section \<open>Concrete inputs\<close>

text \<open>Two responses of the node: an accepted transaction, and one rejected with code 5.\<close>

definition accepted :: TxResponse where
  "accepted = \<lparr>Code = 0, RawLog = '''', Data = '''', TxHash = ''''\<rparr>"

definition rejected :: TxResponse where
  "rejected = \<lparr>Code = 5, RawLog = ''insufficient funds'', Data = '''', TxHash = ''''\<rparr>"

text \<open>
  A key store with one account, and a node that knows it: account number 7, sequence 3,
  500 \<open>token\<close>, a simulation that uses 52000 gas, every transaction accepted. The faucet
  transfers without error. No call takes time.
\<close>

definition alice :: Account where
  "alice = \<lparr>Name = ''alice'', GetAddress = [1, 2, 3]\<rparr>"

definition node :: Env where
  "node =
     \<lparr>registry_GetByName =
        (\<lambda>name. if name = ''alice'' then Inr alice else Inl (ErrorString ''key not found'')),
      account_Address = (\<lambda>account accPrefix. accPrefix @ ''1'' @ Name account),
      bank_AllBalances = (\<lambda>w ctx address. Inr [\<lparr>Denom = ''token'', Amount = 500\<rparr>]),
      faucet_Transfer =
        (\<lambda>w faucet address. Inr \<lparr>responseError = '''',
           Transfers = [\<lparr>transferRecipient = ''cosmos1alice'', transferCoin = ''100token'', transferError = ''''\<rparr>]\<rparr>),
      retriever_EnsureExists = (\<lambda>w address. None),
      retriever_GetAccountNumberSequence = (\<lambda>w address. Inr (7, 3)),
      tx_CalculateGas = (\<lambda>w context txf msgs. Inr 52000),
      tx_BuildRefused = (\<lambda>txf msgs. None),
      keyring_Sign = (\<lambda>w name signerData txBuilder. Inr [9]),
      txConfig_TxEncoder = (\<lambda>txSigned. Inr [8]),
      rpc_BroadcastTx = (\<lambda>w txBytes. (Some accepted, None)),
      took = (\<lambda>w ev. 0)\<rparr>"

text \<open>The same node when the account is not on the ledger.\<close>

definition nodeWithoutAccount :: Env where
  "nodeWithoutAccount =
     node\<lparr>retriever_EnsureExists := (\<lambda>w address. Some (ErrorString ''account not found''))\<rparr>"

definition world0 :: World where
  "world0 = \<lparr>now = 0, mconf = False, bech32Account = (''cosmos'', ''cosmospub''), trace = []\<rparr>"

definition context0 :: Context where
  "context0 = \<lparr>ChainID = ''mars'', HomeDir = ''/home/alice/.mars'', FromName = ''alice'',
                FromAddress = [1, 2, 3], Codec = None\<rparr>"

text \<open>
  Factories: the one \<open>newFactory\<close> makes, one whose account number and sequence are both
  set, and one with only the account number set. A node whose account query fails.
\<close>

definition resolved :: Factory where
  "resolved = (newFactory context0)\<lparr>accountNumber := 4, sequence := 9\<rparr>"

definition halfResolved :: Factory where
  "halfResolved = (newFactory context0)\<lparr>accountNumber := 4\<rparr>"

definition nodeQueryFails :: Env where
  "nodeQueryFails =
     node\<lparr>retriever_GetAccountNumberSequence := (\<lambda>w address. Inl (ErrorString ''timed out''))\<rparr>"

text \<open>
  A client of the chain \<open>mars\<close> that uses the faucet, with the defaults of \<open>New\<close> for the
  faucet's denomination and minimum amount, and a node on which the account holds
  \<open>2 ^ 64\<close> of that denomination.
\<close>

definition client0 :: Client where
  "client0 = \<lparr>Factory = newFactory context0, Context = context0, addressPrefix = ''cosmos'',
               useFaucet = True, faucetAddress = ''http://localhost:4500'',
               faucetDenom = ''token'', faucetMinAmount = 100\<rparr>"

definition nodeLargeBalance :: Env where
  "nodeLargeBalance =
     node\<lparr>bank_AllBalances := (\<lambda>w ctx address. Inr [\<lparr>Denom = ''token'', Amount = 2 ^ 64\<rparr>])\<rparr>"

text \<open>
  A codec for the protobuf wire format of short envelopes (every length below 128, so that
  a length is one byte): an envelope is its results as fields of number 1, a result is its
  type tag as field 1 and its data as field 2. The empty byte string is the envelope
  without results.
\<close>

definition toBytes :: "string \<Rightarrow> bytes" where
  "toBytes s = map (\<lambda>c. word_of_nat (of_char c)) s"

definition toString :: "bytes \<Rightarrow> string" where
  "toString bs = map (\<lambda>b. char_of (unat b)) bs"

definition writeField :: "byte \<Rightarrow> bytes \<Rightarrow> bytes" where
  "writeField tag payload = tag # word_of_nat (length payload) # payload"

definition readField :: "byte \<Rightarrow> bytes \<Rightarrow> (bytes \<times> bytes) option" where
  "readField tag bs =
     (case bs of
        t # n # rest \<Rightarrow>
          if t = tag \<and> unat n < 128 \<and> unat n \<le> length rest
          then Some (take (unat n) rest, drop (unat n) rest)
          else None
      | _ \<Rightarrow> None)"

definition writeMsgData :: "MsgData \<Rightarrow> bytes" where
  "writeMsgData d = writeField 0x0A (toBytes (MsgType d)) @ writeField 0x12 (ResultData d)"

definition readMsgData :: "bytes \<Rightarrow> MsgData option" where
  "readMsgData bs =
     (case readField 0x0A bs of
        None \<Rightarrow> None
      | Some (tag, rest) \<Rightarrow>
          (case readField 0x12 rest of
             Some (d, []) \<Rightarrow> Some \<lparr>MsgType = toString tag, ResultData = d\<rparr>
           | _ \<Rightarrow> None))"

definition writeTxMsgData :: "TxMsgData \<Rightarrow> bytes" where
  "writeTxMsgData e = concat (map (\<lambda>d. writeField 0x0A (writeMsgData d)) (Results e))"

fun readResults :: "nat \<Rightarrow> bytes \<Rightarrow> MsgData list option" where
  "readResults fuel [] = Some []"
| "readResults 0 (b # bs) = None"
| "readResults (Suc fuel) (b # bs) =
     (case readField 0x0A (b # bs) of
        None \<Rightarrow> None
      | Some (entry, rest) \<Rightarrow>
          (case readMsgData entry of
             None \<Rightarrow> None
           | Some d \<Rightarrow> map_option ((#) d) (readResults fuel rest)))"

definition wireCodec :: "bytes \<Rightarrow> error + TxMsgData" where
  "wireCodec bs =
     (case readResults (length bs) bs of
        None \<Rightarrow> Inl (ErrorString ''proto: illegal wireType'')
      | Some ds \<Rightarrow> Inr \<lparr>Results = ds\<rparr>)"

text \<open>
  The result type of the example in the comment of \<open>Decode\<close>: \<open>MsgCreateChainResponse\<close>,
  here with one number (the chain's identifier, below 256) as its contents.
\<close>

definition writeCreateChainResponse :: "nat \<Rightarrow> bytes" where
  "writeCreateChainResponse v = [0x08, word_of_nat v]"

definition MsgCreateChainResponse :: "nat Message" where
  "MsgCreateChainResponse =
     \<lparr>MessageName = ''tendermint.spn.launch.MsgCreateChainResponse'',
      Unmarshal = (\<lambda>bs. case bs of [t, v] \<Rightarrow> (if t = 0x08 then Inr (unat v)
                                               else Inl (ErrorString ''proto: illegal wireType''))
                        | _ \<Rightarrow> Inl (ErrorString ''unexpected EOF''))\<rparr>"

definition createChainTag :: string where
  "createChainTag = ''/tendermint.spn.launch.MsgCreateChain''"

text \<open>
  The response of a broadcast whose data is empty (the hexadecimal string of no bytes), as
  \<open>broadcast\<close> returns it with the context's codec.
\<close>

definition responseWithoutResults :: Response where
  "responseWithoutResults = \<lparr>codec = Some wireCodec, txResponse = Some accepted\<rparr>"

text \<open>An envelope with two results, the first one a \<open>MsgCreateChainResponse\<close> holding 42.\<close>

definition twoResults :: TxMsgData where
  "twoResults =
     \<lparr>Results = [\<lparr>MsgType = createChainTag, ResultData = writeCreateChainResponse 42\<rparr>,
                 \<lparr>MsgType = ''/cosmos.bank.v1beta1.MsgSend'', ResultData = []\<rparr>]\<rparr>"

text \<open>
  Nodes on which the account holds nothing: with a faucet that refuses the request, with a
  faucet one of whose transfers fails, and with a faucet that answers after five seconds.
  On the last node of this group the faucet's tokens arrive two seconds after the start.
\<close>

definition nodeNoBalance :: Env where
  "nodeNoBalance = node\<lparr>bank_AllBalances := (\<lambda>w ctx address. Inr [])\<rparr>"

definition nodeFaucetRefuses :: Env where
  "nodeFaucetRefuses =
     nodeNoBalance\<lparr>faucet_Transfer :=
       (\<lambda>w faucet address. Inr \<lparr>responseError = ''faucet is out of funds'', Transfers = []\<rparr>)\<rparr>"

definition nodeTransferFails :: Env where
  "nodeTransferFails =
     nodeNoBalance\<lparr>faucet_Transfer :=
       (\<lambda>w faucet address. Inr \<lparr>responseError = '''',
          Transfers = [\<lparr>transferRecipient = ''cosmos1alice'', transferCoin = ''100token'', transferError = ''''\<rparr>,
                       \<lparr>transferRecipient = ''cosmos1alice'', transferCoin = ''100stake'',
                        transferError = ''transfer limit reached''\<rparr>]\<rparr>)\<rparr>"

definition nodeSlowFaucet :: Env where
  "nodeSlowFaucet =
     nodeNoBalance\<lparr>took := (\<lambda>w ev. if isFaucetTransfer ev then 5 * Second else 0)\<rparr>"

definition nodeFundedLater :: Env where
  "nodeFundedLater =
     node\<lparr>bank_AllBalances :=
       (\<lambda>w ctx address. if 2 * Second \<le> now w then Inr [\<lparr>Denom = ''token'', Amount = 500\<rparr>]
                          else Inr [])\<rparr>"

text \<open>The address of the account under the client's prefix.\<close>

definition address0 :: string where
  "address0 = ''cosmos1alice''"

text \<open>One message to broadcast.\<close>

definition msgs0 :: "Msg list" where
  "msgs0 = [\<lparr>msgTypeURL = ''/tendermint.spn.launch.MsgCreateChain'', msgPayload = [1]\<rparr>]"


text \<open>
  The provisioner that \<open>BroadcastTxWithProvision\<close> returns for this client, account and
  message on \<open>node\<close>: the simulation's 52000 gas and the margin.
\<close>

definition provision0 :: Provision where
  "provision0 =
     \<lparr>provisionFactory = (newFactory context0)\<lparr>accountNumber := 7, sequence := 3, gas := 62000\<rparr>,
      provisionMsgs = msgs0, provisionContext = context0, provisionAccountName = ''alice''\<rparr>"

text \<open>
  The provisioner that \<open>BroadcastTxWithProvisionCreateAccount\<close> returns in the same
  situation.
\<close>

definition provisionCreate0 :: Provision where
  "provisionCreate0 =
     \<lparr>provisionFactory = (newFactory context0)\<lparr>gas := 62000\<rparr>,
      provisionMsgs = msgs0, provisionContext = context0, provisionAccountName = ''alice''\<rparr>"

text \<open>A second client of the same process, for a chain whose addresses begin with \<open>spn\<close>.\<close>

definition clientSpn :: Client where
  "clientSpn = client0\<lparr>addressPrefix := ''spn''\<rparr>"

section \<open>Auxiliary facts\<close>

lemma HasPrefix_prefix: "HasPrefix s p = prefix p s"
  by (induction s p rule: HasPrefix.induct) auto

lemma Contains_sublist: "Contains s substr = sublist substr s"
  by (induction s) (auto simp: HasPrefix_prefix sublist_Cons_right)

lemma Contains_middle: "Contains (p @ s @ q) s"
  by (auto simp: Contains_sublist sublist_def)
lemma issued_append [simp]: "trace w' = trace w @ evs \<Longrightarrow> issued w w' = evs"
  by (simp add: issued_def)

lemma trace_call [simp]: "trace (call env ev w) = trace w @ [ev]"
  by (simp add: call_def)

lemmas inputs = node_def nodeWithoutAccount_def nodeQueryFails_def world0_def context0_def
  newFactory_def resolved_def halfResolved_def alice_def
lemma Uint64_in_range:
  "0 \<le> i \<Longrightarrow> i < 2 ^ 64 \<Longrightarrow> Uint64 i = Return (word_of_int i) \<and> uint (word_of_int i :: uint64) = i"
  by (simp add: Uint64_def uint_word_of_int)

lemma balanceIsEnough_in_range:
  assumes "\<forall>coin \<in> set balances. Denom coin = denom \<longrightarrow> 0 \<le> Amount coin \<and> Amount coin < 2 ^ 64"
  shows "balanceIsEnough denom minAmount balances
           = Return (\<exists>coin \<in> set balances. Denom coin = denom \<and> uint minAmount \<le> Amount coin)"
  using assms
proof (induction balances)
  case Nil
  then show ?case by simp
next
  case (Cons coin rest)
  show ?case
  proof (cases "Denom coin = denom")
    case True
    with Cons.prems have "0 \<le> Amount coin" "Amount coin < 2 ^ 64" by simp_all
    from Uint64_in_range [OF this] Cons True show ?thesis
      by (auto simp: word_le_def)
  next
    case False
    with Cons show ?thesis by auto
  qed
qed

lemma checkAccountBalance_in_range:
  assumes "bank_AllBalances env w ctx address = Inr balances"
    and "\<forall>coin \<in> set balances. Denom coin = faucetDenom c \<longrightarrow> 0 \<le> Amount coin \<and> Amount coin < 2 ^ 64"
  shows "fst (checkAccountBalance env c ctx address w) =
           Return (if \<exists>coin \<in> set balances. Denom coin = faucetDenom c
                        \<and> uint (faucetMinAmount c) \<le> Amount coin
                   then None else Some notEnoughBalance)"
proof -
  note scan = balanceIsEnough_in_range [OF assms(2), of "faucetMinAmount c"]
  show ?thesis
  proof (cases balances)
    case Nil
    then show ?thesis
      using assms(1) by (simp add: checkAccountBalance_def Let_def)
  next
    case (Cons coin rest)
    then have "length balances > 0"
      by simp
    then show ?thesis
      using assms(1)
      by (auto simp add: checkAccountBalance_def Let_def scan simp del: balanceIsEnough.simps
          split: bool.splits)
  qed
qed

lemma fromHexChar_hextable: "n < 16 \<Longrightarrow> fromHexChar (hextable ! n) = Some n"
proof -
  have "\<forall>n \<in> set [0..<16]. fromHexChar (hextable ! n) = Some n"
    by code_simp
  then show "n < 16 \<Longrightarrow> fromHexChar (hextable ! n) = Some n"
    by simp
qed

lemma DecodeString_EncodeToString: "DecodeString (EncodeToString bs) = Inr bs"
proof (induction bs)
  case Nil
  show ?case by simp
next
  case (Cons v vs)
  have "unat v < 2 ^ 8"
    using unsigned_less [of v] by simp
  then have high: "unat v div 16 < 16"
    by simp
  have low: "unat v mod 16 < 16"
    by simp
  have "16 * (unat v div 16) + unat v mod 16 = unat v"
    by simp
  then show ?case
    using Cons by (simp add: fromHexChar_hextable [OF high] fromHexChar_hextable [OF low])
qed

lemma AnyMessageName_after_slash:
  "CHR ''/'' \<notin> set name \<Longrightarrow> AnyMessageName \<lparr>TypeUrl = pre @ ''/'' @ name, Value = v\<rparr> = Inr name"
proof -
  assume "CHR ''/'' \<notin> set name"
  then have "takeWhile (\<lambda>c. c \<noteq> CHR ''/'') (rev name @ CHR ''/'' # rev pre) = rev name"
    by (intro takeWhile_tail [THEN trans [OF _ refl]] takeWhile_append2 [THEN trans]) auto
  then show ?thesis
    by (simp add: AnyMessageName_def)
qed

lemma Decode_empty_results:
  "txResponse r = Some resp \<Longrightarrow> DecodeString (Data resp) = Inr data \<Longrightarrow> codec r = Some cdc
     \<Longrightarrow> cdc data = Inr txMsgData \<Longrightarrow> Results txMsgData = []
     \<Longrightarrow> Decode r message = Panic ''runtime error: index out of range [0] with length 0''"
  by (simp add: Decode_def)

lemma Decode_malformed_is_error:
  "txResponse r = Some resp \<Longrightarrow> codec r = Some cdc
     \<Longrightarrow> DecodeString (Data resp) = Inl err \<or> (DecodeString (Data resp) = Inr data \<and> cdc data = Inl err)
     \<Longrightarrow> Decode r message = Return (Inl err)"
  by (auto simp: Decode_def)

lemma checkAccountBalance_world:
  "snd (checkAccountBalance env c ctx address w) = call env (EvAllBalances address) w"
  by (simp add: checkAccountBalance_def Let_def split: sum.splits outcome.splits bool.splits)

lemma pollTrace_again:
  "pollTrace address evs \<Longrightarrow> pollTrace address (EvAllBalances address # EvSleep Second # evs)"
  by (cases evs) simp_all

lemma pollTrace_no_transfer: "pollTrace address evs \<Longrightarrow> filter isFaucetTransfer evs = []"
  by (induction address evs rule: pollTrace.induct) simp_all

lemma Retry_polls:
  "\<exists>evs. trace (snd (Retry env c deadline address w)) = trace w @ evs \<and> pollTrace address evs"
proof (induction env c deadline address w rule: Retry.induct)
  case (1 env c deadline address w)
  obtain r w1 where chk: "checkAccountBalance env c (Some deadline) address w = (r, w1)"
    by fastforce
  have w1: "w1 = call env (EvAllBalances address) w"
    using chk checkAccountBalance_world [of env c "Some deadline" address w] by simp
  show ?case
  proof (cases "\<exists>err. r = Return (Some err) \<and> \<not> deadline \<le> now w1 \<and> \<not> deadline - now w1 \<le> Second")
    case True
    then obtain err where r: "r = Return (Some err)"
      and early: "\<not> deadline \<le> now w1" "\<not> deadline - now w1 \<le> Second"
      by blast
    from "1.IH" [OF chk [symmetric] r refl early]
    obtain evs where evs: "trace (snd (Retry env c deadline address (sleep Second w1)))
        = trace (sleep Second w1) @ evs" "pollTrace address evs"
      by blast
    have "Retry env c deadline address w = Retry env c deadline address (sleep Second w1)"
      using chk r early by (subst Retry.simps) simp
    with evs w1 have "trace (snd (Retry env c deadline address w))
        = trace w @ (EvAllBalances address # EvSleep Second # evs)"
      by (simp add: sleep_def)
    with pollTrace_again [OF evs(2)] show ?thesis
      by blast
  next
    case False
    then have "trace (snd (Retry env c deadline address w)) = trace w @ [EvAllBalances address]
      \<or> (\<exists>d \<le> Second. trace (snd (Retry env c deadline address w))
            = trace w @ [EvAllBalances address, EvSleep d])"
      using chk w1 by (subst (1 2) Retry.simps) (auto simp: sleep_def split: outcome.splits option.splits)
    then show ?thesis
      by (elim disjE exE conjE) (rule exI [of _ "[EvAllBalances address]"], simp,
          rule_tac x = "[EvAllBalances address, EvSleep d]" in exI, simp)
  qed
qed

lemma Retry_result:
  "fst (Retry env c deadline address w) = Return (Some e)
     \<Longrightarrow> e = DeadlineExceeded \<and> deadline \<le> now (snd (Retry env c deadline address w))"
proof (induction env c deadline address w rule: Retry.induct)
  case (1 env c deadline address w)
  obtain r w1 where chk: "checkAccountBalance env c (Some deadline) address w = (r, w1)"
    by fastforce
  show ?case
  proof (cases "\<exists>err. r = Return (Some err) \<and> \<not> deadline \<le> now w1 \<and> \<not> deadline - now w1 \<le> Second")
    case True
    then obtain err where r: "r = Return (Some err)"
      and early: "\<not> deadline \<le> now w1" "\<not> deadline - now w1 \<le> Second"
      by blast
    have "Retry env c deadline address w = Retry env c deadline address (sleep Second w1)"
      using chk r early by (subst Retry.simps) simp
    with "1.IH" [OF chk [symmetric] r refl early] "1.prems" show ?thesis
      by simp
  next
    case False
    with "1.prems" chk show ?thesis
      by (subst (asm) Retry.simps, subst Retry.simps)
         (auto simp: sleep_def split: outcome.splits option.splits if_splits)
  qed
qed

lemma transfersError_None:
  "transfersError ts = None \<longleftrightarrow> (\<forall>t \<in> set ts. transferError t = '''')"
  by (induction ts) simp_all

lemma transfersError_Some: "transfersError ts = Some reason \<Longrightarrow> reason \<noteq> ''''"
  by (induction ts) (simp_all split: if_splits)

lemma Retry_success:
  "fst (Retry env c deadline address w) = Return None
     \<Longrightarrow> \<exists>w0. checkAccountBalance env c (Some deadline) address w0
              = (Return None, snd (Retry env c deadline address w))"
proof (induction env c deadline address w rule: Retry.induct)
  case (1 env c deadline address w)
  obtain r w1 where chk: "checkAccountBalance env c (Some deadline) address w = (r, w1)"
    by fastforce
  show ?case
  proof (cases "\<exists>err. r = Return (Some err) \<and> \<not> deadline \<le> now w1 \<and> \<not> deadline - now w1 \<le> Second")
    case True
    then obtain err where r: "r = Return (Some err)"
      and early: "\<not> deadline \<le> now w1" "\<not> deadline - now w1 \<le> Second"
      by blast
    have "Retry env c deadline address w = Retry env c deadline address (sleep Second w1)"
      using chk r early by (subst Retry.simps) simp
    with "1.IH" [OF chk [symmetric] r refl early] "1.prems" show ?thesis
      by simp
  next
    case False
    with "1.prems" chk have "r = Return None \<and> snd (Retry env c deadline address w) = w1"
      by (subst (asm) Retry.simps, subst Retry.simps)
         (auto split: outcome.splits option.splits if_splits)
    with chk show ?thesis
      by blast
  qed
qed

lemma Retry_exhausts:
  "\<forall>w ctx. bank_AllBalances env w ctx address = Inr []
     \<Longrightarrow> \<forall>w. took env w (EvAllBalances address) = 0
     \<Longrightarrow> now w \<le> deadline
     \<Longrightarrow> fst (Retry env c deadline address w) = Return (Some DeadlineExceeded)
         \<and> now (snd (Retry env c deadline address w)) = deadline"
proof (induction env c deadline address w rule: Retry.induct)
  case (1 env c deadline address w)
  let ?w1 = "call env (EvAllBalances address) w"
  have chk: "checkAccountBalance env c (Some deadline) address w = (Return (Some notEnoughBalance), ?w1)"
    using "1.prems"(1) by (simp add: checkAccountBalance_def Let_def)
  have now1: "now ?w1 = now w"
    using "1.prems"(2) by (simp add: call_def)
  show ?case
  proof (cases "\<not> deadline \<le> now ?w1 \<and> \<not> deadline - now ?w1 \<le> Second")
    case True
    have step: "Retry env c deadline address w = Retry env c deadline address (sleep Second ?w1)"
      using chk True by (subst Retry.simps) simp
    have "now (sleep Second ?w1) \<le> deadline"
      using True now1 by (simp add: sleep_def) arith
    from "1.IH" [OF chk [symmetric] refl refl _ _ "1.prems"(1,2) this] True step show ?thesis
      by simp
  next
    case False
    with chk now1 "1.prems"(3) show ?thesis
      by (subst (1 2) Retry.simps) (auto simp: sleep_def)
  qed
qed

lemma slowFaucet_run:
  "fst (makeSureAccountHasTokens nodeSlowFaucet client0 None address0 world0)
       = Return (Some DeadlineExceeded)
   \<and> now (snd (makeSureAccountHasTokens nodeSlowFaucet client0 None address0 world0))
       = 125 * Second"
proof -
  let ?w1 = "call nodeSlowFaucet (EvAllBalances address0) world0"
  let ?w2 = "call nodeSlowFaucet (EvFaucetTransfer (faucetAddress client0) address0) ?w1"
  have check: "checkAccountBalance nodeSlowFaucet client0 None address0 world0
      = (Return (Some notEnoughBalance), ?w1)"
    by (simp add: checkAccountBalance_def nodeSlowFaucet_def nodeNoBalance_def node_def Let_def)
  have now2: "now ?w2 = 5 * Second"
    by (simp add: call_def nodeSlowFaucet_def nodeNoBalance_def node_def world0_def)
  have resp: "faucet_Transfer nodeSlowFaucet ?w1 (faucetAddress client0) address0
      = Inr \<lparr>responseError = '''',
          Transfers = [\<lparr>transferRecipient = ''cosmos1alice'', transferCoin = ''100token'', transferError = ''''\<rparr>]\<rparr>"
    by (simp add: nodeSlowFaucet_def nodeNoBalance_def node_def)
  have deadline: "WithTimeout None FaucetTransferEnsureDuration ?w2 = 125 * Second"
    unfolding WithTimeout_def now2 by (simp add: FaucetTransferEnsureDuration_def Minute_def)
  have run: "makeSureAccountHasTokens nodeSlowFaucet client0 None address0 world0
      = Retry nodeSlowFaucet client0 (125 * Second) address0 ?w2"
    by (simp add: makeSureAccountHasTokens_def check resp Let_def deadline)
  have never: "\<forall>w ctx. bank_AllBalances nodeSlowFaucet w ctx address0 = Inr []"
    and instant: "\<forall>w. took nodeSlowFaucet w (EvAllBalances address0) = 0"
    by (simp_all add: nodeSlowFaucet_def nodeNoBalance_def node_def)
  have early: "now ?w2 \<le> 125 * Second"
    unfolding now2 by simp
  note Retry_exhausts [OF never instant early, of client0]
  with run show ?thesis
    by simp
qed

lemma fundedLater_run:
  "makeSureAccountHasTokens nodeFundedLater client0 None address0 world0
     = (Return None,
        world0\<lparr>now := 2 * Second,
               trace := [EvAllBalances address0, EvFaucetTransfer ''http://localhost:4500'' address0,
                         EvAllBalances address0, EvSleep Second,
                         EvAllBalances address0, EvSleep Second,
                         EvAllBalances address0]\<rparr>)"
  by (simp add: makeSureAccountHasTokens_def Retry.simps checkAccountBalance_def call_def sleep_def
      nodeFundedLater_def node_def client0_def world0_def Let_def WithTimeout_def
      Second_def Minute_def FaucetTransferEnsureDuration_def Uint64_def word_le_def uint_word_of_int)

lemma broadcast_encodes:
  assumes "EvEncode txSigned \<in> set (issued v (snd (broadcast env p v)))"
  shows "GasLimit txSigned = gas (provisionFactory p) \<and> Msgs txSigned = provisionMsgs p
       \<and> (\<exists>sig. Signatures txSigned =
             [(\<lparr>signerChainID = chainID (provisionFactory p),
                 AccountNumber = accountNumber (provisionFactory p),
                 Sequence = sequence (provisionFactory p)\<rparr>, sig)])"
  using assms
  by (auto simp: broadcast_def BuildUnsignedTx_def Sign_def Let_def
      split: sum.splits option.splits prod.splits outcome.splits)

lemma broadcast_signs:
  assumes "tx_BuildRefused env (provisionFactory p) (provisionMsgs p) = None"
    and "keyring_Sign env
           (call env (EvBuildUnsignedTx (provisionFactory p) (provisionMsgs p)) v)
           (provisionAccountName p)
           \<lparr>signerChainID = chainID (provisionFactory p),
            AccountNumber = accountNumber (provisionFactory p),
            Sequence = sequence (provisionFactory p)\<rparr>
           \<lparr>Msgs = provisionMsgs p, GasLimit = gas (provisionFactory p), Signatures = []\<rparr>
         = Inr sig"
  shows "EvEncode \<lparr>Msgs = provisionMsgs p, GasLimit = gas (provisionFactory p),
                    Signatures = [(\<lparr>signerChainID = chainID (provisionFactory p),
                                     AccountNumber = accountNumber (provisionFactory p),
                                     Sequence = sequence (provisionFactory p)\<rparr>, sig)]\<rparr>
           \<in> set (issued v (snd (broadcast env p v)))"
  using assms
  by (auto simp: broadcast_def BuildUnsignedTx_def Sign_def Let_def
      split: sum.splits option.splits prod.splits outcome.splits)

lemma pollTrace_funding: "pollTrace address evs \<Longrightarrow> list_all isFundingEvent evs"
  by (induction address evs rule: pollTrace.induct) simp_all

lemma makeSureAccountHasTokens_trace:
  "\<exists>evs. trace (snd (makeSureAccountHasTokens env c ctx address w)) = trace w @ evs
         \<and> list_all isFundingEvent evs"
proof -
  obtain r w1 where chk: "checkAccountBalance env c ctx address w = (r, w1)"
    by fastforce
  have w1: "trace w1 = trace w @ [EvAllBalances address]"
    using chk checkAccountBalance_world [of env c ctx address w] by simp
  let ?w2 = "call env (EvFaucetTransfer (faucetAddress c) address) w1"
  let ?deadline = "WithTimeout ctx FaucetTransferEnsureDuration ?w2"
  from Retry_polls [of env c ?deadline address ?w2]
  obtain evs where evs: "trace (snd (Retry env c ?deadline address ?w2)) = trace ?w2 @ evs"
      "pollTrace address evs"
    by blast
  have polled: "trace (snd (Retry env c ?deadline address ?w2))
      = trace w @ (EvAllBalances address # EvFaucetTransfer (faucetAddress c) address # evs)"
    using evs(1) w1 by simp
  have funding: "list_all isFundingEvent
      (EvAllBalances address # EvFaucetTransfer (faucetAddress c) address # evs)"
    using pollTrace_funding [OF evs(2)] by simp
  have "trace (snd (makeSureAccountHasTokens env c ctx address w)) = trace w @ [EvAllBalances address]
    \<or> trace (snd (makeSureAccountHasTokens env c ctx address w))
         = trace w @ [EvAllBalances address, EvFaucetTransfer (faucetAddress c) address]
    \<or> snd (makeSureAccountHasTokens env c ctx address w) = snd (Retry env c ?deadline address ?w2)"
    using chk w1
    by (auto simp: makeSureAccountHasTokens_def Let_def
        split: outcome.splits option.splits sum.splits)
  then show ?thesis
  proof (elim disjE)
    assume "trace (snd (makeSureAccountHasTokens env c ctx address w)) = trace w @ [EvAllBalances address]"
    then show ?thesis
      by (intro exI [of _ "[EvAllBalances address]"]) simp
  next
    assume "trace (snd (makeSureAccountHasTokens env c ctx address w))
         = trace w @ [EvAllBalances address, EvFaucetTransfer (faucetAddress c) address]"
    then show ?thesis
      by (intro exI [of _ "[EvAllBalances address, EvFaucetTransfer (faucetAddress c) address]"]) simp
  next
    assume "snd (makeSureAccountHasTokens env c ctx address w) = snd (Retry env c ?deadline address ?w2)"
    with polled funding show ?thesis
      by (intro exI [of _ "EvAllBalances address # EvFaucetTransfer (faucetAddress c) address # evs"])
         simp
  qed
qed

lemma makeSureAccountHasTokens_state:
  "mconf (snd (makeSureAccountHasTokens env c ctx address w)) = mconf w
   \<and> bech32Account (snd (makeSureAccountHasTokens env c ctx address w)) = bech32Account w"
proof -
  have call: "\<And>ev v. mconf (call env ev v) = mconf v \<and> bech32Account (call env ev v) = bech32Account v"
    by (simp add: call_def)
  have retry: "\<And>deadline v. mconf (snd (Retry env c deadline address v)) = mconf v
      \<and> bech32Account (snd (Retry env c deadline address v)) = bech32Account v"
  proof -
    fix deadline v
    show "mconf (snd (Retry env c deadline address v)) = mconf v
      \<and> bech32Account (snd (Retry env c deadline address v)) = bech32Account v"
    proof (induction env c deadline address v rule: Retry.induct)
      case (1 env c deadline address w)
      obtain r w1 where chk: "checkAccountBalance env c (Some deadline) address w = (r, w1)"
        by fastforce
      have w1: "w1 = call env (EvAllBalances address) w"
        using chk checkAccountBalance_world [of env c "Some deadline" address w] by simp
      show ?case
      proof (cases "\<exists>err. r = Return (Some err) \<and> \<not> deadline \<le> now w1 \<and> \<not> deadline - now w1 \<le> Second")
        case True
        then obtain err where r: "r = Return (Some err)"
          and early: "\<not> deadline \<le> now w1" "\<not> deadline - now w1 \<le> Second"
          by blast
        have "Retry env c deadline address w = Retry env c deadline address (sleep Second w1)"
          using chk r early by (subst Retry.simps) simp
        with "1.IH" [OF chk [symmetric] r refl early] w1 show ?thesis
          by (simp add: sleep_def call_def)
      next
        case False
        with chk w1 show ?thesis
          by (subst (1 2) Retry.simps)
             (auto simp: sleep_def call_def split: outcome.splits option.splits)
      qed
    qed
  qed
  obtain r w1 where chk: "checkAccountBalance env c ctx address w = (r, w1)"
    by fastforce
  have w1: "w1 = call env (EvAllBalances address) w"
    using chk checkAccountBalance_world [of env c ctx address w] by simp
  show ?thesis
    using chk w1 call retry
    by (auto simp: makeSureAccountHasTokens_def Let_def
        split: outcome.splits option.splits sum.splits)
qed

lemma prepareBroadcast_trace:
  "\<exists>evs. trace (snd (prepareBroadcast env c ctx accountName msgs w)) = trace w @ evs
         \<and> list_all isFundingEvent evs"
  using makeSureAccountHasTokens_trace
  by (auto simp: prepareBroadcast_def split: sum.splits)

lemma prepareBroadcast_state:
  "mconf (snd (prepareBroadcast env c ctx accountName msgs w)) = mconf w
   \<and> bech32Account (snd (prepareBroadcast env c ctx accountName msgs w)) = bech32Account w"
  using makeSureAccountHasTokens_state
  by (auto simp: prepareBroadcast_def split: sum.splits)

lemma beforeCalculateGas_funding:
  "list_all isFundingEvent pre \<Longrightarrow> beforeCalculateGas (pre @ evs) = pre @ beforeCalculateGas evs"
proof -
  assume "list_all isFundingEvent pre"
  then have "\<forall>ev \<in> set pre. \<not> isCalculateGas ev"
    by (induction pre) (auto elim: isCalculateGas.elims)
  then show ?thesis
    by (simp add: beforeCalculateGas_def)
qed

lemma funding_not_retriever:
  "list_all isFundingEvent pre \<Longrightarrow> filter isRetrieverEvent pre = []"
  by (induction pre) (auto elim: isRetrieverEvent.elims)

lemma node_provision_run:
  "BroadcastTxWithProvision node client0 ''alice'' msgs0 world0
     = Some (Return (62000, Some provision0, None),
             world0\<lparr>trace := [EvAllBalances address0, EvLock,
                                EvSetBech32PrefixForAccount ''cosmos'' ''cosmospub'',
                                EvEnsureExists [1, 2, 3], EvGetAccountNumberSequence [1, 2, 3],
                                EvCalculateGas ((newFactory context0)\<lparr>accountNumber := 7, sequence := 3\<rparr>) msgs0,
                                EvUnlock]\<rparr>)"
  by (simp add: BroadcastTxWithProvision_def provisionLocked_def prepareBroadcast_def
      makeSureAccountHasTokens_def checkAccountBalance_def prepareFactory_def Address_def
      Lock_def Unlock_def SetBech32PrefixForAccount_def call_def
      node_def client0_def alice_def world0_def context0_def newFactory_def provision0_def
      address0_def Let_def Uint64_def word_le_def uint_word_of_int)

lemma node_provision_create_run:
  "BroadcastTxWithProvisionCreateAccount node client0 ''alice'' msgs0 world0
     = Some (Return (62000, Some provisionCreate0, None),
             world0\<lparr>trace := [EvAllBalances address0, EvLock,
                                EvSetBech32PrefixForAccount ''cosmos'' ''cosmospub'',
                                EvCalculateGas (newFactory context0) msgs0,
                                EvUnlock]\<rparr>)"
  by (simp add: BroadcastTxWithProvisionCreateAccount_def provisionLockedCreateAccount_def
      prepareBroadcast_def makeSureAccountHasTokens_def checkAccountBalance_def Address_def
      Lock_def Unlock_def SetBech32PrefixForAccount_def call_def
      node_def client0_def alice_def world0_def context0_def newFactory_def provisionCreate0_def
      address0_def Let_def Uint64_def word_le_def uint_word_of_int)

lemma BroadcastTxWithProvision_releases:
  assumes "BroadcastTxWithProvision env c accountName msgs w = Some (Return (padded, Some p, err), w')"
  shows "\<not> mconf w' \<and> (\<exists>evs. issued w w' = evs @ [EvUnlock])
       \<and> bech32Account w' = (addressPrefix c, addressPrefix c @ ''pub'')"
proof -
  obtain pre where pre: "trace (snd (prepareBroadcast env c None accountName msgs w)) = trace w @ pre"
    using prepareBroadcast_trace by blast
  obtain r1 w1 where pb: "prepareBroadcast env c None accountName msgs w = (r1, w1)"
    by fastforce
  have w1: "trace w1 = trace w @ pre"
    using pre pb by simp
  show ?thesis
    using assms pb w1
    by (auto simp: BroadcastTxWithProvision_def provisionLocked_def prepareFactory_def
        Lock_def Unlock_def SetBech32PrefixForAccount_def Let_def call_def
        split: outcome.splits option.splits sum.splits if_splits prod.splits)
qed

lemma broadcast_outside_lock:
  "mconf (snd (broadcast env p v)) = mconf v
   \<and> bech32Account (snd (broadcast env p v)) = bech32Account v
   \<and> EvLock \<notin> set (issued v (snd (broadcast env p v)))
   \<and> (EvSign txf name config \<in> set (issued v (snd (broadcast env p v))) \<longrightarrow> config = bech32Account v)"
  by (auto simp: broadcast_def Let_def call_def issued_def
      split: sum.splits option.splits prod.splits outcome.splits)

lemma BroadcastTxWithProvision_does_not_sign:
  assumes "BroadcastTxWithProvision env c accountName msgs w = Some (r, v)"
  shows "filter isSign (issued w v) = []"
proof -
  obtain pre where pre: "trace (snd (prepareBroadcast env c None accountName msgs w)) = trace w @ pre"
      "list_all isFundingEvent pre"
    using prepareBroadcast_trace by blast
  obtain r1 w1 where pb: "prepareBroadcast env c None accountName msgs w = (r1, w1)"
    by fastforce
  have w1: "trace w1 = trace w @ pre"
    using pre(1) pb by simp
  have quiet: "filter isSign pre = []"
    using pre(2) by (induction pre) (auto elim: isSign.elims)
  show ?thesis
    using assms pb w1 quiet
    by (auto simp: BroadcastTxWithProvision_def provisionLocked_def
        prepareFactory_def Lock_def Unlock_def SetBech32PrefixForAccount_def Let_def
        split: outcome.splits option.splits sum.splits if_splits prod.splits)
qed

lemma BroadcastTx_signs_unlocked:
  assumes "BroadcastTx env c accountName msgs w = Some (r, w')"
    and "filter isSign (issued w w') \<noteq> []"
  shows "\<exists>padded p v. BroadcastTxWithProvision env c accountName msgs w
             = Some (Return (padded, Some p, None), v)
           \<and> \<not> mconf v
           \<and> (\<exists>before. issued w v = before @ [EvUnlock] \<and> filter isSign before = [])
           \<and> (r, w') = broadcast env p v"
proof (cases "BroadcastTxWithProvision env c accountName msgs w")
  case None
  with assms(1) show ?thesis
    by (simp add: BroadcastTx_def runProvision_def)
next
  case (Some result)
  obtain r1 v where result: "result = (r1, v)"
    by fastforce
  note silent = BroadcastTxWithProvision_does_not_sign [OF Some [unfolded result]]
  show ?thesis
  proof (cases "\<exists>padded p. r1 = Return (padded, Some p, None)")
    case True
    then obtain padded p where r1: "r1 = Return (padded, Some p, None)"
      by blast
    note provided = Some [unfolded result r1]
    from BroadcastTxWithProvision_releases [OF provided]
    obtain evs where free: "\<not> mconf v" and evs: "issued w v = evs @ [EvUnlock]"
      by blast
    have "filter isSign evs = []"
      using silent evs by simp
    moreover have "(r, w') = broadcast env p v"
      using assms(1) provided by (simp add: BroadcastTx_def runProvision_def)
    ultimately show ?thesis
      using provided free evs by blast
  next
    case False
    then have "w' = v"
      using assms(1) Some result
      by (auto simp: BroadcastTx_def runProvision_def split: outcome.splits option.splits)
    with silent assms(2) show ?thesis
      by simp
  qed
qed

section \<open>The claims\<close>

subsection \<open>C3: classification of a broadcast outcome\<close>

text \<open>
  C3. With no transport error, a response with code 0 yields no error, and a response with
  a code other than 0 yields an error whose message is
  \<open>SPN error with '<code>' code: <raw log>\<close>, so that it contains the decimal code and the
  raw log verbatim. A transport error whose message contains \<open>not found\<close> is replaced by
  the hint to check the account's balance, whatever the response; every other transport
  error is returned as it is.
\<close>

theorem handleBroadcastResult_classifies:
  "(Code r = 0 \<longrightarrow> handleBroadcastResult (Some r) None = Return None)
   \<and> (Code r \<noteq> 0 \<longrightarrow>
        (\<exists>e. handleBroadcastResult (Some r) None = Return (Some e)
           \<and> Error e = ''SPN error with '' @ [CHR 0x27] @ FormatUint (unat (Code r)) @ [CHR 0x27]
                          @ '' code: '' @ RawLog r
           \<and> Contains (Error e) (FormatUint (unat (Code r)))
           \<and> Contains (Error e) (RawLog r)))
   \<and> (Contains (Error t) ''not found'' \<longrightarrow>
        handleBroadcastResult resp (Some t)
          = Return (Some (ErrorString ''make sure that your SPN account has enough balance'')))
   \<and> (\<not> Contains (Error t) ''not found'' \<longrightarrow> handleBroadcastResult resp (Some t) = Return (Some t))"
proof (intro conjI impI)
  assume "Code r = 0"
  then show "handleBroadcastResult (Some r) None = Return None"
    by (simp add: handleBroadcastResult_def)
next
  assume nz: "Code r \<noteq> 0"
  let ?m = "''SPN error with '' @ [CHR 0x27] @ FormatUint (unat (Code r)) @ [CHR 0x27]
              @ '' code: '' @ RawLog r"
  have pos: "Code r > 0" using nz by (simp add: word_greater_zero_iff)
  have res: "handleBroadcastResult (Some r) None = Return (Some (ErrorString ?m))"
    using pos by (simp add: handleBroadcastResult_def)
  have c1: "Contains ?m (FormatUint (unat (Code r)))"
    using Contains_middle [of "''SPN error with '' @ [CHR 0x27]" "FormatUint (unat (Code r))"
        "[CHR 0x27] @ '' code: '' @ RawLog r"] by simp
  have c2: "Contains ?m (RawLog r)"
    using Contains_middle [of "''SPN error with '' @ [CHR 0x27] @ FormatUint (unat (Code r))
        @ [CHR 0x27] @ '' code: ''" "RawLog r" "[]"] by simp
  show "\<exists>e. handleBroadcastResult (Some r) None = Return (Some e)
           \<and> Error e = ?m
           \<and> Contains (Error e) (FormatUint (unat (Code r)))
           \<and> Contains (Error e) (RawLog r)"
    using res c1 c2 by (intro exI [of _ "ErrorString ?m"]) simp
next
  assume "Contains (Error t) ''not found''"
  then show "handleBroadcastResult resp (Some t)
          = Return (Some (ErrorString ''make sure that your SPN account has enough balance''))"
    by (simp add: handleBroadcastResult_def)
next
  assume "\<not> Contains (Error t) ''not found''"
  then show "handleBroadcastResult resp (Some t) = Return (Some t)"
    by (simp add: handleBroadcastResult_def)
qed

theorem handleBroadcastResult_classifies_witness:
  "handleBroadcastResult (Some accepted) None = Return None
   \<and> (\<exists>e. handleBroadcastResult (Some rejected) None = Return (Some e)
         \<and> Error e = ''SPN error with '' @ [CHR 0x27] @ ''5'' @ [CHR 0x27] @ '' code: insufficient funds''
         \<and> Contains (Error e) ''5'' \<and> Contains (Error e) ''insufficient funds'')
   \<and> handleBroadcastResult None (Some (ErrorString ''rpc error: account not found''))
       = Return (Some (ErrorString ''make sure that your SPN account has enough balance''))
   \<and> handleBroadcastResult None (Some (ErrorString ''connection refused''))
       = Return (Some (ErrorString ''connection refused''))"
proof -
  have five: "FormatUint (unat (5 :: uint32)) = ''5''"
    by (simp add: FormatUint.simps digit_def)
  have a: "Code accepted = 0" and b: "Code rejected \<noteq> 0"
    and l: "RawLog rejected = ''insufficient funds''"
    by (simp_all add: accepted_def rejected_def)
  have c: "Contains (Error (ErrorString ''rpc error: account not found'')) ''not found''"
    by simp
  have d: "\<not> Contains (Error (ErrorString ''connection refused'')) ''not found''"
    by simp
  note t1 = handleBroadcastResult_classifies
    [of accepted "ErrorString ''rpc error: account not found''" None]
  note t2 = handleBroadcastResult_classifies
    [of rejected "ErrorString ''connection refused''" None]
  from t1 a c have p1: "handleBroadcastResult (Some accepted) None = Return None"
    and p3: "handleBroadcastResult None (Some (ErrorString ''rpc error: account not found''))
       = Return (Some (ErrorString ''make sure that your SPN account has enough balance''))"
    by blast+
  from t2 b d have p2: "\<exists>e. handleBroadcastResult (Some rejected) None = Return (Some e)
           \<and> Error e = ''SPN error with '' @ [CHR 0x27] @ FormatUint (unat (Code rejected))
                          @ [CHR 0x27] @ '' code: '' @ RawLog rejected
           \<and> Contains (Error e) (FormatUint (unat (Code rejected)))
           \<and> Contains (Error e) (RawLog rejected)"
    and p4: "handleBroadcastResult None (Some (ErrorString ''connection refused''))
       = Return (Some (ErrorString ''connection refused''))"
    by blast+
  have code5: "Code rejected = 5" by (simp add: rejected_def)
  from p2 have p2': "\<exists>e. handleBroadcastResult (Some rejected) None = Return (Some e)
         \<and> Error e = ''SPN error with '' @ [CHR 0x27] @ ''5'' @ [CHR 0x27] @ '' code: insufficient funds''
         \<and> Contains (Error e) ''5'' \<and> Contains (Error e) ''insufficient funds''"
    unfolding code5 five l by simp
  from p1 p2' p3 p4 show ?thesis by blast
qed

subsection \<open>C2: how many queries \<open>prepareFactory\<close> makes, and what it overwrites\<close>

text \<open>
  C2, as stated, fails: a factory with a zero account number or sequence makes
  \<open>prepareFactory\<close> issue no account-number/sequence query at all when the signer account
  is not on the ledger, because the existence check comes first and returns.
\<close>

theorem prepareFactory_one_query_counterexample:
  "\<not> (\<forall>env clientCtx txf w. accountNumber txf = 0 \<or> sequence txf = 0 \<longrightarrow>
        numberSequenceQueries (issued w (snd (prepareFactory env clientCtx txf w))) = 1)"
proof
  assume "\<forall>env clientCtx txf w. accountNumber txf = 0 \<or> sequence txf = 0 \<longrightarrow>
        numberSequenceQueries (issued w (snd (prepareFactory env clientCtx txf w))) = 1"
  then have "accountNumber (newFactory context0) = 0 \<or> sequence (newFactory context0) = 0 \<longrightarrow>
    numberSequenceQueries (issued world0
      (snd (prepareFactory nodeWithoutAccount context0 (newFactory context0) world0))) = 1"
    by blast
  then show False
    by (simp add: prepareFactory_def nodeWithoutAccount_def node_def Let_def
        numberSequenceQueries_def newFactory_def)
qed

text \<open>
  C2, amended. Let \<open>prepareFactory\<close> return the factory \<open>txf'\<close> and the error \<open>err\<close>.
  If account number and sequence are both set (not zero), no account-number/sequence query
  is issued and the factory is returned unchanged. If the existence check of the signer
  fails, no query is issued either, and the factory is returned unchanged with that
  error. If a field is zero and the existence check succeeds, exactly one query is issued;
  when it answers, exactly the fields that were zero take the queried values, and when it
  fails its error is returned with the factory unchanged. In every case only these two
  fields can differ, and a field that was not zero keeps its value.
\<close>

theorem prepareFactory_queries:
  assumes "prepareFactory env clientCtx txf w = ((txf', err), w')"
  shows "(accountNumber txf \<noteq> 0 \<and> sequence txf \<noteq> 0 \<longrightarrow>
            numberSequenceQueries (issued w w') = 0 \<and> txf' = txf)
    \<and> (retriever_EnsureExists env w (FromAddress clientCtx) \<noteq> None \<longrightarrow>
            numberSequenceQueries (issued w w') = 0 \<and> txf' = txf
            \<and> err = retriever_EnsureExists env w (FromAddress clientCtx))
    \<and> ((accountNumber txf = 0 \<or> sequence txf = 0)
          \<and> retriever_EnsureExists env w (FromAddress clientCtx) = None \<longrightarrow>
            numberSequenceQueries (issued w w') = 1
            \<and> (case retriever_GetAccountNumberSequence env
                       (call env (EvEnsureExists (FromAddress clientCtx)) w) (FromAddress clientCtx) of
                  Inr (num, seq) \<Rightarrow>
                    err = None
                    \<and> accountNumber txf' = (if accountNumber txf = 0 then num else accountNumber txf)
                    \<and> sequence txf' = (if sequence txf = 0 then seq else sequence txf)
                | Inl e \<Rightarrow> err = Some e \<and> txf' = txf))
    \<and> txf' = txf\<lparr>accountNumber := accountNumber txf', sequence := sequence txf'\<rparr>
    \<and> (accountNumber txf \<noteq> 0 \<longrightarrow> accountNumber txf' = accountNumber txf)
    \<and> (sequence txf \<noteq> 0 \<longrightarrow> sequence txf' = sequence txf)"
  using assms
  by (auto simp: prepareFactory_def Let_def numberSequenceQueries_def split: option.splits sum.splits if_splits prod.splits)

theorem prepareFactory_queries_witness:
  "numberSequenceQueries (issued world0 (snd (prepareFactory node context0 (newFactory context0) world0))) = 1
   \<and> accountNumber (fst (fst (prepareFactory node context0 (newFactory context0) world0))) = 7
   \<and> sequence (fst (fst (prepareFactory node context0 (newFactory context0) world0))) = 3
   \<and> numberSequenceQueries (issued world0 (snd (prepareFactory node context0 halfResolved world0))) = 1
   \<and> accountNumber (fst (fst (prepareFactory node context0 halfResolved world0))) = 4
   \<and> sequence (fst (fst (prepareFactory node context0 halfResolved world0))) = 3
   \<and> numberSequenceQueries (issued world0 (snd (prepareFactory node context0 resolved world0))) = 0
   \<and> fst (fst (prepareFactory node context0 resolved world0)) = resolved
   \<and> numberSequenceQueries (issued world0
        (snd (prepareFactory nodeWithoutAccount context0 (newFactory context0) world0))) = 0
   \<and> fst (fst (prepareFactory nodeQueryFails context0 (newFactory context0) world0)) = newFactory context0
   \<and> snd (fst (prepareFactory nodeQueryFails context0 (newFactory context0) world0))
        = Some (ErrorString ''timed out'')"
proof -
  have pair: "\<And>r :: (Factory \<times> error option) \<times> World. r = ((fst (fst r), snd (fst r)), snd r)"
    by simp
  note fresh = prepareFactory_queries [OF pair [of "prepareFactory node context0 (newFactory context0) world0"]]
  note half = prepareFactory_queries [OF pair [of "prepareFactory node context0 halfResolved world0"]]
  note full = prepareFactory_queries [OF pair [of "prepareFactory node context0 resolved world0"]]
  note unknown = prepareFactory_queries
    [OF pair [of "prepareFactory nodeWithoutAccount context0 (newFactory context0) world0"]]
  note fails = prepareFactory_queries
    [OF pair [of "prepareFactory nodeQueryFails context0 (newFactory context0) world0"]]
  have zero: "accountNumber (newFactory context0) = 0 \<or> sequence (newFactory context0) = 0"
    and zero': "accountNumber halfResolved = 0 \<or> sequence halfResolved = 0"
    and set: "accountNumber resolved \<noteq> 0 \<and> sequence resolved \<noteq> 0"
    and set': "accountNumber halfResolved \<noteq> 0"
    by (simp_all add: inputs)
  have known: "retriever_EnsureExists node world0 (FromAddress context0) = None"
    and known': "retriever_EnsureExists nodeQueryFails world0 (FromAddress context0) = None"
    and missing: "retriever_EnsureExists nodeWithoutAccount world0 (FromAddress context0) \<noteq> None"
    by (simp_all add: inputs)
  have answer: "retriever_GetAccountNumberSequence node
       (call node (EvEnsureExists (FromAddress context0)) world0) (FromAddress context0) = Inr (7, 3)"
    and noAnswer: "retriever_GetAccountNumberSequence nodeQueryFails
       (call nodeQueryFails (EvEnsureExists (FromAddress context0)) world0) (FromAddress context0)
         = Inl (ErrorString ''timed out'')"
    by (simp_all add: inputs)
  from fresh zero known answer have
    "numberSequenceQueries (issued world0 (snd (prepareFactory node context0 (newFactory context0) world0))) = 1
     \<and> accountNumber (fst (fst (prepareFactory node context0 (newFactory context0) world0))) = 7
     \<and> sequence (fst (fst (prepareFactory node context0 (newFactory context0) world0))) = 3"
    by (simp add: newFactory_def)
  moreover from half zero' set' known answer have
    "numberSequenceQueries (issued world0 (snd (prepareFactory node context0 halfResolved world0))) = 1
     \<and> accountNumber (fst (fst (prepareFactory node context0 halfResolved world0))) = 4
     \<and> sequence (fst (fst (prepareFactory node context0 halfResolved world0))) = 3"
    by (simp add: halfResolved_def newFactory_def)
  moreover from full set have
    "numberSequenceQueries (issued world0 (snd (prepareFactory node context0 resolved world0))) = 0
     \<and> fst (fst (prepareFactory node context0 resolved world0)) = resolved"
    by simp
  moreover from unknown missing have
    "numberSequenceQueries (issued world0
        (snd (prepareFactory nodeWithoutAccount context0 (newFactory context0) world0))) = 0"
    by simp
  moreover from fails zero known' noAnswer have
    "fst (fst (prepareFactory nodeQueryFails context0 (newFactory context0) world0)) = newFactory context0
     \<and> snd (fst (prepareFactory nodeQueryFails context0 (newFactory context0) world0))
        = Some (ErrorString ''timed out'')"
    by simp
  ultimately show ?thesis by simp
qed

subsection \<open>C5: when \<open>checkAccountBalance\<close> succeeds\<close>

text \<open>
  C5 holds as long as every amount of the faucet's denomination fits a \<open>uint64\<close>
  (\<open>checkAccountBalance_in_range\<close>). Beyond that the code does not do what the claim says:
  for a balance of \<open>2 ^ 64\<close> in the faucet's denomination, which is an entry with the
  configured denomination and an amount of at least the configured minimum, the claim
  promises success, and \<open>checkAccountBalance\<close> panics in \<open>coin.Amount.Uint64()\<close>.
\<close>

theorem checkAccountBalance_large_balance_panics:
  "bank_AllBalances nodeLargeBalance world0 None ''cosmos1alice''
     = Inr [\<lparr>Denom = ''token'', Amount = 2 ^ 64\<rparr>]
   \<and> faucetDenom client0 = ''token''
   \<and> uint (faucetMinAmount client0) \<le> 2 ^ 64
   \<and> fst (checkAccountBalance nodeLargeBalance client0 None ''cosmos1alice'' world0)
       = Panic ''Uint64() out of bounds''"
  by (simp add: checkAccountBalance_def nodeLargeBalance_def node_def client0_def Uint64_def Let_def)

subsection \<open>C7: \<open>Decode\<close> reads the first result, and inverts the envelope encoding\<close>

text \<open>
  C7. For a response whose data decodes (from hexadecimal, then by the codec) to an
  envelope with a first result, \<open>Decode\<close> is \<open>UnmarshalAny\<close> on that first result alone,
  with the type URL made of the result's message type tag and the suffix \<open>Response\<close>; the
  later results do not enter. Consequently decoding inverts encoding: for a target type
  \<open>T\<close> whose name is the tag's message name followed by \<open>Response\<close>, the envelope of one
  result that carries a marshalled value \<open>v\<close> of \<open>T\<close> decodes to \<open>v\<close>, for every codec and
  every \<open>T\<close> whose unmarshalling inverts its marshalling on the data at hand.
\<close>

theorem Decode_first_result_roundtrip:
  "(txResponse r = Some resp \<and> DecodeString (Data resp) = Inr data \<and> codec r = Some cdc
      \<and> cdc data = Inr txMsgData \<and> Results txMsgData = resData # later \<longrightarrow>
      Decode r message
        = Return (UnmarshalAny \<lparr>TypeUrl = MsgType resData @ ''Response'',
                                Value = ResultData resData\<rparr> message))
   \<and> (msgType = pre @ ''/'' @ name \<and> CHR ''/'' \<notin> set name
        \<and> MessageName T = name @ ''Response''
        \<and> Unmarshal T (marshal v) = Inr v
        \<and> unmarshalEnvelope (marshalEnvelope \<lparr>Results = [\<lparr>MsgType = msgType, ResultData = marshal v\<rparr>]\<rparr>)
             = Inr \<lparr>Results = [\<lparr>MsgType = msgType, ResultData = marshal v\<rparr>]\<rparr> \<longrightarrow>
      Decode \<lparr>codec = Some unmarshalEnvelope,
              txResponse = Some (sent\<lparr>Data := EncodeResult marshalEnvelope marshal msgType v\<rparr>)\<rparr> T
        = Return (Inr v))"
proof (intro conjI impI)
  assume "txResponse r = Some resp \<and> DecodeString (Data resp) = Inr data \<and> codec r = Some cdc
      \<and> cdc data = Inr txMsgData \<and> Results txMsgData = resData # later"
  then show "Decode r message
        = Return (UnmarshalAny \<lparr>TypeUrl = MsgType resData @ ''Response'',
                                Value = ResultData resData\<rparr> message)"
    by (simp add: Decode_def)
next
  assume h: "msgType = pre @ ''/'' @ name \<and> CHR ''/'' \<notin> set name
        \<and> MessageName T = name @ ''Response''
        \<and> Unmarshal T (marshal v) = Inr v
        \<and> unmarshalEnvelope (marshalEnvelope \<lparr>Results = [\<lparr>MsgType = msgType, ResultData = marshal v\<rparr>]\<rparr>)
             = Inr \<lparr>Results = [\<lparr>MsgType = msgType, ResultData = marshal v\<rparr>]\<rparr>"
  let ?envelope = "\<lparr>Results = [\<lparr>MsgType = msgType, ResultData = marshal v\<rparr>]\<rparr>"
  from h have tag: "msgType = pre @ ''/'' @ name" and name: "MessageName T = name @ ''Response''"
    and inverse: "Unmarshal T (marshal v) = Inr v"
    and envelope: "unmarshalEnvelope (marshalEnvelope ?envelope) = Inr ?envelope"
    by blast+
  from h have "CHR ''/'' \<notin> set name"
    by blast
  then have "CHR ''/'' \<notin> set (name @ ''Response'')"
    by simp
  from AnyMessageName_after_slash [OF this, of pre "marshal v"]
  have any: "UnmarshalAny \<lparr>TypeUrl = msgType @ ''Response'', Value = marshal v\<rparr> T = Inr v"
    by (simp add: UnmarshalAny_def tag name inverse)
  show "Decode \<lparr>codec = Some unmarshalEnvelope,
              txResponse = Some (sent\<lparr>Data := EncodeResult marshalEnvelope marshal msgType v\<rparr>)\<rparr> T
        = Return (Inr v)"
    by (simp add: Decode_def EncodeResult_def DecodeString_EncodeToString envelope any)
qed

theorem Decode_first_result_roundtrip_witness:
  "Decode \<lparr>codec = Some wireCodec,
           txResponse = Some (accepted\<lparr>Data := EncodeToString (writeTxMsgData twoResults)\<rparr>)\<rparr>
          MsgCreateChainResponse
     = Return (Inr 42)
   \<and> Decode \<lparr>codec = Some wireCodec,
             txResponse = Some (accepted\<lparr>Data :=
               EncodeResult writeTxMsgData writeCreateChainResponse createChainTag 42\<rparr>)\<rparr>
            MsgCreateChainResponse
     = Return (Inr 42)"
proof -
  let ?first = "\<lparr>MsgType = createChainTag, ResultData = writeCreateChainResponse 42\<rparr>"
  let ?second = "\<lparr>MsgType = ''/cosmos.bank.v1beta1.MsgSend'', ResultData = []\<rparr>"
  let ?resp = "accepted\<lparr>Data := EncodeToString (writeTxMsgData twoResults)\<rparr>"
  let ?r = "\<lparr>codec = Some wireCodec, txResponse = Some ?resp\<rparr>"
  have two: "wireCodec (writeTxMsgData twoResults) = Inr twoResults"
    by code_simp
  have one: "wireCodec (writeTxMsgData \<lparr>Results = [?first]\<rparr>) = Inr \<lparr>Results = [?first]\<rparr>"
    by code_simp
  have any: "UnmarshalAny \<lparr>TypeUrl = MsgType ?first @ ''Response'', Value = ResultData ?first\<rparr>
               MsgCreateChainResponse = Inr 42"
    by code_simp
  have h1: "txResponse ?r = Some ?resp \<and> DecodeString (Data ?resp) = Inr (writeTxMsgData twoResults)
      \<and> codec ?r = Some wireCodec \<and> wireCodec (writeTxMsgData twoResults) = Inr twoResults
      \<and> Results twoResults = ?first # [?second]"
    using two by (simp add: DecodeString_EncodeToString twoResults_def)
  have h2: "createChainTag = [] @ ''/'' @ ''tendermint.spn.launch.MsgCreateChain''
      \<and> CHR ''/'' \<notin> set ''tendermint.spn.launch.MsgCreateChain''
      \<and> MessageName MsgCreateChainResponse = ''tendermint.spn.launch.MsgCreateChain'' @ ''Response''
      \<and> Unmarshal MsgCreateChainResponse (writeCreateChainResponse 42) = Inr 42
      \<and> wireCodec (writeTxMsgData \<lparr>Results = [?first]\<rparr>) = Inr \<lparr>Results = [?first]\<rparr>"
    using one by (simp add: createChainTag_def MsgCreateChainResponse_def writeCreateChainResponse_def)
  note t = Decode_first_result_roundtrip
    [of ?r ?resp "writeTxMsgData twoResults" wireCodec twoResults ?first "[?second]"
        MsgCreateChainResponse createChainTag "[]" "''tendermint.spn.launch.MsgCreateChain''"
        MsgCreateChainResponse writeCreateChainResponse 42 wireCodec writeTxMsgData accepted]
  from t h1 h2 any show ?thesis
    by simp
qed

subsection \<open>C8: a response without results\<close>

text \<open>
  C8 does not hold of the code. A response whose data is empty decodes (from hexadecimal
  and by the codec, both without error) to an envelope with no result, and \<open>Decode\<close> then
  indexes the empty list: it panics where the claim promises a returned error. The same
  holds of a \<open>Response\<close> without its \<open>TxResponse\<close>, which \<open>Decode\<close> reads through a nil
  pointer. A malformed payload, in contrast, is returned as an error
  (\<open>Decode_malformed_is_error\<close>).
\<close>

theorem Decode_without_results_panics:
  "DecodeString (Data accepted) = Inr []
   \<and> wireCodec [] = Inr \<lparr>Results = []\<rparr>
   \<and> Decode responseWithoutResults MsgCreateChainResponse
       = Panic ''runtime error: index out of range [0] with length 0''
   \<and> Decode emptyResponse MsgCreateChainResponse = Panic nilDereference"
  by (simp add: Decode_def responseWithoutResults_def emptyResponse_def accepted_def wireCodec_def)

subsection \<open>C4: the faucet's response\<close>

text \<open>
  C4. Let the first balance check have failed and the faucet have answered with a
  response. If the top-level error and every transfer error are empty, the funding step
  has succeeded and \<open>makeSureAccountHasTokens\<close> goes on to the polling loop. If any of them
  is not empty, it returns the error \<open>cannot retrieve tokens from faucet: ...\<close> at once: the
  world it returns is the one right after the faucet request, and all it has done is the
  first balance query and that one faucet request (no second request, no polling).
\<close>

theorem makeSureAccountHasTokens_faucet_response:
  assumes "checkAccountBalance env c ctx address w = (Return (Some noBalance), w1)"
    and "faucet_Transfer env w1 (faucetAddress c) address = Inr faucetResp"
    and "w2 = call env (EvFaucetTransfer (faucetAddress c) address) w1"
    and "makeSureAccountHasTokens env c ctx address w = (result, w')"
  shows "(responseError faucetResp = '''' \<and> (\<forall>t \<in> set (Transfers faucetResp). transferError t = '''') \<longrightarrow>
            (result, w') = Retry env c (WithTimeout ctx FaucetTransferEnsureDuration w2) address w2)
       \<and> (responseError faucetResp \<noteq> '''' \<or> (\<exists>t \<in> set (Transfers faucetResp). transferError t \<noteq> '''') \<longrightarrow>
            (\<exists>reason. reason \<noteq> ''''
               \<and> result = Return (Some (ErrorString (''cannot retrieve tokens from faucet: '' @ reason))))
            \<and> w' = w2
            \<and> issued w w' = [EvAllBalances address, EvFaucetTransfer (faucetAddress c) address])"
proof -
  have w1: "w1 = call env (EvAllBalances address) w"
    using assms(1) checkAccountBalance_world [of env c ctx address w] by simp
  show ?thesis
  proof (cases "responseError faucetResp = ''''")
    case False
    then show ?thesis
      using assms w1 by (auto simp: makeSureAccountHasTokens_def Let_def)
  next
    case True
    show ?thesis
    proof (cases "transfersError (Transfers faucetResp)")
      case None
      then have "\<forall>t \<in> set (Transfers faucetResp). transferError t = ''''"
        by (simp add: transfersError_None)
      then show ?thesis
        using assms True None by (auto simp: makeSureAccountHasTokens_def Let_def)
    next
      case (Some reason)
      then have "reason \<noteq> ''''" and "\<not> (\<forall>t \<in> set (Transfers faucetResp). transferError t = '''')"
        using transfersError_Some [OF Some] transfersError_None [of "Transfers faucetResp"] by simp_all
      then show ?thesis
        using assms w1 True Some by (auto simp: makeSureAccountHasTokens_def Let_def)
    qed
  qed
qed

theorem makeSureAccountHasTokens_faucet_response_witness:
  "makeSureAccountHasTokens nodeFaucetRefuses client0 None address0 world0
     = (Return (Some (ErrorString ''cannot retrieve tokens from faucet: faucet is out of funds'')),
        call nodeFaucetRefuses (EvFaucetTransfer (faucetAddress client0) address0)
          (call nodeFaucetRefuses (EvAllBalances address0) world0))
   \<and> issued world0 (snd (makeSureAccountHasTokens nodeFaucetRefuses client0 None address0 world0))
       = [EvAllBalances address0, EvFaucetTransfer ''http://localhost:4500'' address0]
   \<and> fst (makeSureAccountHasTokens nodeTransferFails client0 None address0 world0)
       = Return (Some (ErrorString ''cannot retrieve tokens from faucet: transfer limit reached''))
   \<and> issued world0 (snd (makeSureAccountHasTokens nodeTransferFails client0 None address0 world0))
       = [EvAllBalances address0, EvFaucetTransfer ''http://localhost:4500'' address0]
   \<and> makeSureAccountHasTokens nodeFundedLater client0 None address0 world0
       = Retry nodeFundedLater client0 FaucetTransferEnsureDuration address0
           (call nodeFundedLater (EvFaucetTransfer (faucetAddress client0) address0)
             (call nodeFundedLater (EvAllBalances address0) world0))
   \<and> fst (makeSureAccountHasTokens nodeFundedLater client0 None address0 world0) = Return None"
proof -
  let ?ev = "EvFaucetTransfer (faucetAddress client0) address0"
  have pair: "\<And>r :: error option outcome \<times> World. r = (fst r, snd r)"
    by simp
  have faucet: "faucetAddress client0 = ''http://localhost:4500''"
    by (simp add: client0_def)
  \<comment> \<open>the faucet refuses the request\<close>
  let ?a1 = "call nodeFaucetRefuses (EvAllBalances address0) world0"
  have a_check: "checkAccountBalance nodeFaucetRefuses client0 None address0 world0
      = (Return (Some notEnoughBalance), ?a1)"
    by (simp add: checkAccountBalance_def nodeFaucetRefuses_def nodeNoBalance_def node_def Let_def)
  have a_resp: "faucet_Transfer nodeFaucetRefuses ?a1 (faucetAddress client0) address0
      = Inr \<lparr>responseError = ''faucet is out of funds'', Transfers = []\<rparr>"
    by (simp add: nodeFaucetRefuses_def nodeNoBalance_def node_def)
  note a = makeSureAccountHasTokens_faucet_response [OF a_check a_resp refl
      pair [of "makeSureAccountHasTokens nodeFaucetRefuses client0 None address0 world0"]]
  have a_result: "fst (makeSureAccountHasTokens nodeFaucetRefuses client0 None address0 world0)
      = Return (Some (ErrorString ''cannot retrieve tokens from faucet: faucet is out of funds''))"
    by (simp add: makeSureAccountHasTokens_def a_check a_resp Let_def)
  \<comment> \<open>one transfer of the response fails\<close>
  let ?b1 = "call nodeTransferFails (EvAllBalances address0) world0"
  let ?b_resp = "\<lparr>responseError = '''',
          Transfers = [\<lparr>transferRecipient = ''cosmos1alice'', transferCoin = ''100token'', transferError = ''''\<rparr>,
                       \<lparr>transferRecipient = ''cosmos1alice'', transferCoin = ''100stake'',
                        transferError = ''transfer limit reached''\<rparr>]\<rparr>"
  have b_check: "checkAccountBalance nodeTransferFails client0 None address0 world0
      = (Return (Some notEnoughBalance), ?b1)"
    by (simp add: checkAccountBalance_def nodeTransferFails_def nodeNoBalance_def node_def Let_def)
  have b_resp: "faucet_Transfer nodeTransferFails ?b1 (faucetAddress client0) address0 = Inr ?b_resp"
    by (simp add: nodeTransferFails_def nodeNoBalance_def node_def)
  note b = makeSureAccountHasTokens_faucet_response [OF b_check b_resp refl
      pair [of "makeSureAccountHasTokens nodeTransferFails client0 None address0 world0"]]
  have b_result: "fst (makeSureAccountHasTokens nodeTransferFails client0 None address0 world0)
      = Return (Some (ErrorString ''cannot retrieve tokens from faucet: transfer limit reached''))"
    by (simp add: makeSureAccountHasTokens_def b_check b_resp Let_def)
  \<comment> \<open>the faucet transfers\<close>
  let ?c1 = "call nodeFundedLater (EvAllBalances address0) world0"
  let ?c_resp = "\<lparr>responseError = '''',
      Transfers = [\<lparr>transferRecipient = ''cosmos1alice'', transferCoin = ''100token'', transferError = ''''\<rparr>]\<rparr>"
  have c_check: "checkAccountBalance nodeFundedLater client0 None address0 world0
      = (Return (Some notEnoughBalance), ?c1)"
    by (simp add: checkAccountBalance_def nodeFundedLater_def node_def Let_def world0_def Second_def)
  have c_resp: "faucet_Transfer nodeFundedLater ?c1 (faucetAddress client0) address0 = Inr ?c_resp"
    by (simp add: nodeFundedLater_def node_def)
  note c = makeSureAccountHasTokens_faucet_response [OF c_check c_resp refl
      pair [of "makeSureAccountHasTokens nodeFundedLater client0 None address0 world0"]]
  have c_time: "WithTimeout None FaucetTransferEnsureDuration (call nodeFundedLater ?ev ?c1)
      = FaucetTransferEnsureDuration"
    by (simp add: WithTimeout_def call_def nodeFundedLater_def node_def world0_def)
  have c_result: "fst (Retry nodeFundedLater client0 FaucetTransferEnsureDuration address0
      (call nodeFundedLater ?ev ?c1)) = Return None"
    by (simp add: Retry.simps checkAccountBalance_def call_def sleep_def nodeFundedLater_def node_def
        client0_def world0_def Let_def Second_def Minute_def FaucetTransferEnsureDuration_def
        Uint64_def word_le_def uint_word_of_int)
  from a a_result have "makeSureAccountHasTokens nodeFaucetRefuses client0 None address0 world0
     = (Return (Some (ErrorString ''cannot retrieve tokens from faucet: faucet is out of funds'')),
        call nodeFaucetRefuses ?ev ?a1)
   \<and> issued world0 (snd (makeSureAccountHasTokens nodeFaucetRefuses client0 None address0 world0))
       = [EvAllBalances address0, EvFaucetTransfer ''http://localhost:4500'' address0]"
    by (simp add: faucet prod_eq_iff)
  moreover from b b_result have
    "fst (makeSureAccountHasTokens nodeTransferFails client0 None address0 world0)
       = Return (Some (ErrorString ''cannot retrieve tokens from faucet: transfer limit reached''))
     \<and> issued world0 (snd (makeSureAccountHasTokens nodeTransferFails client0 None address0 world0))
       = [EvAllBalances address0, EvFaucetTransfer ''http://localhost:4500'' address0]"
    by (simp add: faucet)
  moreover from c c_time c_result have
    "makeSureAccountHasTokens nodeFundedLater client0 None address0 world0
       = Retry nodeFundedLater client0 FaucetTransferEnsureDuration address0
           (call nodeFundedLater ?ev ?c1)
     \<and> fst (makeSureAccountHasTokens nodeFundedLater client0 None address0 world0) = Return None"
    by simp
  ultimately show ?thesis
    by blast
qed

subsection \<open>C6: the polling loop and its deadline\<close>

text \<open>
  C6, as stated, fails in one point: the deadline is not counted from when funding began.
  On a node whose faucet takes five seconds to answer and on which no balance ever
  arrives, funding that begins at time 0 ends with the deadline's error at 125 seconds,
  not at 120: \<open>context.WithTimeout\<close> is called after the faucet has answered.
\<close>

theorem makeSureAccountHasTokens_deadline_counterexample:
  "now world0 = 0
   \<and> fst (makeSureAccountHasTokens nodeSlowFaucet client0 None address0 world0)
       = Return (Some DeadlineExceeded)
   \<and> now (snd (makeSureAccountHasTokens nodeSlowFaucet client0 None address0 world0))
       = 125 * Second
   \<and> now world0 + FaucetTransferEnsureDuration = 120 * Second"
  using slowFaucet_run by (simp add: world0_def FaucetTransferEnsureDuration_def Minute_def)

text \<open>
  C6, amended. After a faucet request that succeeded, \<open>makeSureAccountHasTokens\<close> only
  polls: what it adds to the trace are balance queries for the address with sleeps of one
  second between them (the last wait may be cut short by the deadline), and no faucet
  request, so that the whole call has made exactly one. The deadline is two minutes
  counted from when the faucet's answer has arrived (for a caller's context without a
  deadline of its own, as \<open>prepareBroadcast\<close> receives it from the broadcasting functions).
  If the call returns no error, its last balance check has succeeded; if it returns an error, the error is
  \<open>context deadline exceeded\<close> and the deadline has passed.
\<close>

theorem makeSureAccountHasTokens_polls_until_deadline:
  assumes "checkAccountBalance env c ctx address w = (Return (Some noBalance), w1)"
    and "faucet_Transfer env w1 (faucetAddress c) address = Inr faucetResp"
    and "responseError faucetResp = ''''"
    and "\<forall>t \<in> set (Transfers faucetResp). transferError t = ''''"
    and "w2 = call env (EvFaucetTransfer (faucetAddress c) address) w1"
    and "deadline = WithTimeout ctx FaucetTransferEnsureDuration w2"
    and "makeSureAccountHasTokens env c ctx address w = (result, w')"
  shows "pollTrace address (issued w2 w')
       \<and> filter isFaucetTransfer (issued w2 w') = []
       \<and> filter isFaucetTransfer (issued w w') = [EvFaucetTransfer (faucetAddress c) address]
       \<and> (ctx = None \<longrightarrow> deadline = now w2 + 120 * 1000000000)
       \<and> (result = Return None \<longrightarrow>
            (\<exists>w0. checkAccountBalance env c (Some deadline) address w0 = (Return None, w')))
       \<and> (\<forall>e. result = Return (Some e) \<longrightarrow> e = DeadlineExceeded \<and> deadline \<le> now w')"
proof -
  have w1: "w1 = call env (EvAllBalances address) w"
    using assms(1) checkAccountBalance_world [of env c ctx address w] by simp
  have none: "transfersError (Transfers faucetResp) = None"
    using assms(4) by (simp add: transfersError_None)
  have run: "Retry env c deadline address w2 = (result, w')"
    using assms none by (simp add: makeSureAccountHasTokens_def Let_def)
  from Retry_polls [of env c deadline address w2] run
  obtain evs where evs: "trace w' = trace w2 @ evs" "pollTrace address evs"
    by auto
  have polls: "issued w2 w' = evs"
    using evs(1) by simp
  have trace2: "trace w2 = trace w @ [EvAllBalances address, EvFaucetTransfer (faucetAddress c) address]"
    using assms(5) w1 by simp
  have all: "issued w w' = [EvAllBalances address, EvFaucetTransfer (faucetAddress c) address] @ evs"
    using evs(1) trace2 by simp
  have quiet: "filter isFaucetTransfer evs = []"
    using pollTrace_no_transfer [OF evs(2)] .
  have success: "result = Return None \<longrightarrow>
      (\<exists>w0. checkAccountBalance env c (Some deadline) address w0 = (Return None, w'))"
    using Retry_success [of env c deadline address w2] run by simp
  have failure: "\<forall>e. result = Return (Some e) \<longrightarrow> e = DeadlineExceeded \<and> deadline \<le> now w'"
    using Retry_result [of env c deadline address w2] run by simp
  have two: "ctx = None \<longrightarrow> deadline = now w2 + 120 * 1000000000"
    using assms(6) by (simp add: WithTimeout_def FaucetTransferEnsureDuration_def Minute_def Second_def)
  show ?thesis
    unfolding polls all using evs(2) quiet success failure two by simp
qed

theorem makeSureAccountHasTokens_polls_until_deadline_witness:
  "fst (makeSureAccountHasTokens nodeFundedLater client0 None address0 world0) = Return None
   \<and> pollTrace address0
        [EvAllBalances address0, EvSleep Second, EvAllBalances address0, EvSleep Second,
         EvAllBalances address0]
   \<and> filter isFaucetTransfer
        (issued world0 (snd (makeSureAccountHasTokens nodeFundedLater client0 None address0 world0)))
       = [EvFaucetTransfer ''http://localhost:4500'' address0]
   \<and> fst (makeSureAccountHasTokens nodeSlowFaucet client0 None address0 world0)
       = Return (Some DeadlineExceeded)
   \<and> 5 * Second + 120 * 1000000000
       \<le> now (snd (makeSureAccountHasTokens nodeSlowFaucet client0 None address0 world0))"
proof -
  have pair: "\<And>r :: error option outcome \<times> World. r = (fst r, snd r)"
    by simp
  have faucet: "faucetAddress client0 = ''http://localhost:4500''"
    by (simp add: client0_def)
  have empty: "\<forall>t \<in> set [\<lparr>transferRecipient = ''cosmos1alice'', transferCoin = ''100token'', transferError = ''''\<rparr>].
      transferError t = ''''"
    by simp
  \<comment> \<open>the tokens arrive after two seconds\<close>
  let ?a1 = "call nodeFundedLater (EvAllBalances address0) world0"
  let ?a2 = "call nodeFundedLater (EvFaucetTransfer (faucetAddress client0) address0) ?a1"
  let ?a = "makeSureAccountHasTokens nodeFundedLater client0 None address0 world0"
  have a_check: "checkAccountBalance nodeFundedLater client0 None address0 world0
      = (Return (Some notEnoughBalance), ?a1)"
    by (simp add: checkAccountBalance_def nodeFundedLater_def node_def Let_def world0_def Second_def)
  have a_resp: "faucet_Transfer nodeFundedLater ?a1 (faucetAddress client0) address0
      = Inr \<lparr>responseError = '''',
          Transfers = [\<lparr>transferRecipient = ''cosmos1alice'', transferCoin = ''100token'', transferError = ''''\<rparr>]\<rparr>"
    by (simp add: nodeFundedLater_def node_def)
  note a = makeSureAccountHasTokens_polls_until_deadline
    [OF a_check a_resp _ _ refl refl pair [of ?a], simplified TransferResponse.simps, OF refl empty]
  have a_issued: "issued ?a2 (snd ?a)
      = [EvAllBalances address0, EvSleep Second, EvAllBalances address0, EvSleep Second,
         EvAllBalances address0]"
    unfolding fundedLater_run by (simp add: issued_def call_def world0_def)
  \<comment> \<open>the tokens never arrive\<close>
  let ?b1 = "call nodeSlowFaucet (EvAllBalances address0) world0"
  let ?b2 = "call nodeSlowFaucet (EvFaucetTransfer (faucetAddress client0) address0) ?b1"
  let ?b = "makeSureAccountHasTokens nodeSlowFaucet client0 None address0 world0"
  have b_check: "checkAccountBalance nodeSlowFaucet client0 None address0 world0
      = (Return (Some notEnoughBalance), ?b1)"
    by (simp add: checkAccountBalance_def nodeSlowFaucet_def nodeNoBalance_def node_def Let_def)
  have b_resp: "faucet_Transfer nodeSlowFaucet ?b1 (faucetAddress client0) address0
      = Inr \<lparr>responseError = '''',
          Transfers = [\<lparr>transferRecipient = ''cosmos1alice'', transferCoin = ''100token'', transferError = ''''\<rparr>]\<rparr>"
    by (simp add: nodeSlowFaucet_def nodeNoBalance_def node_def)
  have b_now: "now ?b2 = 5 * Second"
    by (simp add: call_def nodeSlowFaucet_def nodeNoBalance_def node_def world0_def)
  note b = makeSureAccountHasTokens_polls_until_deadline
    [OF b_check b_resp _ _ refl refl pair [of ?b], simplified TransferResponse.simps, OF refl empty]
  have b_result: "fst ?b = Return (Some DeadlineExceeded)"
    using slowFaucet_run by simp
  from a a_issued have "fst ?a = Return None
      \<and> pollTrace address0
        [EvAllBalances address0, EvSleep Second, EvAllBalances address0, EvSleep Second,
         EvAllBalances address0]
      \<and> filter isFaucetTransfer (issued world0 (snd ?a))
          = [EvFaucetTransfer ''http://localhost:4500'' address0]"
    unfolding fundedLater_run by (simp add: faucet issued_def world0_def)
  moreover from b b_result b_now have "fst ?b = Return (Some DeadlineExceeded)
      \<and> 5 * Second + 120 * 1000000000 \<le> now (snd ?b)"
    by simp
  ultimately show ?thesis
    by blast
qed

subsection \<open>C1: the gas that \<open>BroadcastTxWithProvision\<close> returns and the transaction declares\<close>




subsection \<open>C10: \<open>BroadcastTxWithProvisionCreateAccount\<close> uses the base factory as it is\<close>

text \<open>
  C10. Whatever \<open>BroadcastTxWithProvisionCreateAccount\<close> returns, it has called the account
  retriever neither for the existence check nor for account number and sequence. The
  provisioner it returns holds the client's factory with only the gas changed, and every
  transaction that provisioner signs is signed over the factory's own chain, account
  number and sequence, which are zero for the factory that \<open>newFactory\<close> makes.
  \<open>BroadcastTxWithProvision\<close> differs: whenever it gets to the simulation it has checked
  before that the account exists, and, the factory having a zero account number or
  sequence, it has queried them.
\<close>

theorem BroadcastTxWithProvisionCreateAccount_base_factory:
  "(BroadcastTxWithProvisionCreateAccount env c accountName msgs w = Some (r, w') \<longrightarrow>
       filter isRetrieverEvent (issued w w') = []
     \<and> (\<forall>padded p err. r = Return (padded, Some p, err) \<longrightarrow>
          provisionFactory p = (Factory c)\<lparr>gas := padded\<rparr>
        \<and> (\<forall>v txSigned. EvEncode txSigned \<in> set (issued v (snd (broadcast env p v))) \<longrightarrow>
             (\<exists>sig. Signatures txSigned =
                [(\<lparr>signerChainID = chainID (Factory c), AccountNumber = accountNumber (Factory c),
                   Sequence = sequence (Factory c)\<rparr>, sig)]))))
   \<and> accountNumber (newFactory clientCtx) = 0 \<and> sequence (newFactory clientCtx) = 0
   \<and> (BroadcastTxWithProvision env c accountName msgs w = Some (r2, w2)
        \<and> filter isCalculateGas (issued w w2) \<noteq> [] \<longrightarrow>
        (\<exists>from. EvEnsureExists from \<in> set (beforeCalculateGas (issued w w2))
           \<and> (accountNumber (Factory c) = 0 \<or> sequence (Factory c) = 0 \<longrightarrow>
                EvGetAccountNumberSequence from \<in> set (beforeCalculateGas (issued w w2)))))"
proof (intro conjI impI)
  assume run: "BroadcastTxWithProvisionCreateAccount env c accountName msgs w = Some (r, w')"
  obtain pre where pre: "trace (snd (prepareBroadcast env c None accountName msgs w)) = trace w @ pre"
      "list_all isFundingEvent pre"
    using prepareBroadcast_trace by blast
  obtain r1 w1 where pb: "prepareBroadcast env c None accountName msgs w = (r1, w1)"
    by fastforce
  have w1: "trace w1 = trace w @ pre"
    using pre(1) pb by simp
  have quiet: "filter isRetrieverEvent pre = []"
    using funding_not_retriever [OF pre(2)] .
  show "filter isRetrieverEvent (issued w w') = []"
    using run pb w1 quiet
    by (auto simp: BroadcastTxWithProvisionCreateAccount_def provisionLockedCreateAccount_def
        Lock_def Unlock_def SetBech32PrefixForAccount_def Let_def
        split: outcome.splits option.splits sum.splits if_splits prod.splits)
  show "\<forall>padded p err. r = Return (padded, Some p, err) \<longrightarrow>
          provisionFactory p = (Factory c)\<lparr>gas := padded\<rparr>
        \<and> (\<forall>v txSigned. EvEncode txSigned \<in> set (issued v (snd (broadcast env p v))) \<longrightarrow>
             (\<exists>sig. Signatures txSigned =
                [(\<lparr>signerChainID = chainID (Factory c), AccountNumber = accountNumber (Factory c),
                   Sequence = sequence (Factory c)\<rparr>, sig)]))"
  proof (intro allI impI)
    fix padded p err
    assume r: "r = Return (padded, Some p, err)"
    have p: "provisionFactory p = (Factory c)\<lparr>gas := padded\<rparr>"
      using run pb r
      by (auto simp: BroadcastTxWithProvisionCreateAccount_def provisionLockedCreateAccount_def
          Lock_def Let_def
          split: outcome.splits option.splits sum.splits if_splits prod.splits)
    show "provisionFactory p = (Factory c)\<lparr>gas := padded\<rparr>
        \<and> (\<forall>v txSigned. EvEncode txSigned \<in> set (issued v (snd (broadcast env p v))) \<longrightarrow>
             (\<exists>sig. Signatures txSigned =
                [(\<lparr>signerChainID = chainID (Factory c), AccountNumber = accountNumber (Factory c),
                   Sequence = sequence (Factory c)\<rparr>, sig)]))"
      using p broadcast_encodes [of _ _ env p] by simp
  qed
next
  show "accountNumber (newFactory clientCtx) = 0" and "sequence (newFactory clientCtx) = 0"
    by (simp_all add: newFactory_def)
next
  assume h: "BroadcastTxWithProvision env c accountName msgs w = Some (r2, w2)
        \<and> filter isCalculateGas (issued w w2) \<noteq> []"
  obtain pre where pre: "trace (snd (prepareBroadcast env c None accountName msgs w)) = trace w @ pre"
      "list_all isFundingEvent pre"
    using prepareBroadcast_trace by blast
  obtain r1 w1 where pb: "prepareBroadcast env c None accountName msgs w = (r1, w1)"
    by fastforce
  have w1: "trace w1 = trace w @ pre"
    using pre(1) pb by simp
  have none: "filter isCalculateGas pre = []"
    using pre(2) by (induction pre) (auto elim: isCalculateGas.elims)
  let ?locked = "[EvLock, EvSetBech32PrefixForAccount (addressPrefix c) (addressPrefix c @ ''pub'')]"
  have shape: "\<exists>from txf.
      (issued w w2 = pre @ ?locked @ [EvEnsureExists from, EvCalculateGas txf msgs, EvUnlock]
         \<and> accountNumber (Factory c) \<noteq> 0 \<and> sequence (Factory c) \<noteq> 0)
      \<or> issued w w2 = pre @ ?locked @ [EvEnsureExists from, EvGetAccountNumberSequence from,
                                          EvCalculateGas txf msgs, EvUnlock]"
    using h pb w1 none
    by (auto simp: BroadcastTxWithProvision_def provisionLocked_def prepareFactory_def
        Lock_def Unlock_def SetBech32PrefixForAccount_def Let_def
        split: outcome.splits option.splits sum.splits if_splits prod.splits)
  note before = beforeCalculateGas_funding [OF pre(2)]
  from shape obtain "from" txf where
    "(issued w w2 = pre @ ?locked @ [EvEnsureExists from, EvCalculateGas txf msgs, EvUnlock]
         \<and> accountNumber (Factory c) \<noteq> 0 \<and> sequence (Factory c) \<noteq> 0)
      \<or> issued w w2 = pre @ ?locked @ [EvEnsureExists from, EvGetAccountNumberSequence from,
                                          EvCalculateGas txf msgs, EvUnlock]"
    by blast
  then have "EvEnsureExists from \<in> set (beforeCalculateGas (issued w w2))
           \<and> (accountNumber (Factory c) = 0 \<or> sequence (Factory c) = 0 \<longrightarrow>
                EvGetAccountNumberSequence from \<in> set (beforeCalculateGas (issued w w2)))"
    by (elim disjE conjE) (simp_all add: before, simp_all add: beforeCalculateGas_def)
  then show "\<exists>from. EvEnsureExists from \<in> set (beforeCalculateGas (issued w w2))
           \<and> (accountNumber (Factory c) = 0 \<or> sequence (Factory c) = 0 \<longrightarrow>
                EvGetAccountNumberSequence from \<in> set (beforeCalculateGas (issued w w2)))"
    by blast
qed

theorem BroadcastTxWithProvisionCreateAccount_base_factory_witness:
  "(\<exists>w'. BroadcastTxWithProvisionCreateAccount node client0 ''alice'' msgs0 world0
            = Some (Return (62000, Some provisionCreate0, None), w')
          \<and> filter isRetrieverEvent (issued world0 w') = [])
   \<and> provisionFactory provisionCreate0 = (Factory client0)\<lparr>gas := 62000\<rparr>
   \<and> (\<exists>txSigned sig.
         EvEncode txSigned \<in> set (issued world0 (snd (broadcast node provisionCreate0 world0)))
         \<and> Signatures txSigned = [(\<lparr>signerChainID = ''mars'', AccountNumber = 0, Sequence = 0\<rparr>, sig)])
   \<and> (\<exists>w2. BroadcastTxWithProvision node client0 ''alice'' msgs0 world0
            = Some (Return (62000, Some provision0, None), w2)
          \<and> EvEnsureExists [1, 2, 3] \<in> set (beforeCalculateGas (issued world0 w2))
          \<and> EvGetAccountNumberSequence [1, 2, 3] \<in> set (beforeCalculateGas (issued world0 w2)))"
proof -
  let ?created = "world0\<lparr>trace := [EvAllBalances address0, EvLock,
                                EvSetBech32PrefixForAccount ''cosmos'' ''cosmospub'',
                                EvCalculateGas (newFactory context0) msgs0,
                                EvUnlock]\<rparr>"
  let ?provided = "world0\<lparr>trace := [EvAllBalances address0, EvLock,
                                EvSetBech32PrefixForAccount ''cosmos'' ''cosmospub'',
                                EvEnsureExists [1, 2, 3], EvGetAccountNumberSequence [1, 2, 3],
                                EvCalculateGas ((newFactory context0)\<lparr>accountNumber := 7, sequence := 3\<rparr>) msgs0,
                                EvUnlock]\<rparr>"
  note t = BroadcastTxWithProvisionCreateAccount_base_factory
    [of node client0 "''alice''" msgs0 world0 "Return (62000, Some provisionCreate0, None)" ?created
        context0 "Return (62000, Some provision0, None)" ?provided]
  have zero: "accountNumber (Factory client0) = 0 \<or> sequence (Factory client0) = 0"
    by (simp add: client0_def newFactory_def)
  have base: "chainID (Factory client0) = ''mars''" "accountNumber (Factory client0) = 0"
    "sequence (Factory client0) = 0"
    by (simp_all add: client0_def newFactory_def context0_def)
  have simulated: "filter isCalculateGas (issued world0 ?provided) \<noteq> []"
    by (simp add: issued_def world0_def)
  have encoded: "EvEncode \<lparr>Msgs = msgs0, GasLimit = 62000,
      Signatures = [(\<lparr>signerChainID = ''mars'', AccountNumber = 0, Sequence = 0\<rparr>, [9])]\<rparr>
      \<in> set (issued world0 (snd (broadcast node provisionCreate0 world0)))"
    using broadcast_signs [of node provisionCreate0 world0 "[9]"]
    by (simp add: provisionCreate0_def node_def newFactory_def context0_def)
  from t node_provision_create_run have created:
    "filter isRetrieverEvent (issued world0 ?created) = []"
    "provisionFactory provisionCreate0 = (Factory client0)\<lparr>gas := 62000\<rparr>"
    "\<forall>v txSigned. EvEncode txSigned \<in> set (issued v (snd (broadcast node provisionCreate0 v))) \<longrightarrow>
       (\<exists>sig. Signatures txSigned =
          [(\<lparr>signerChainID = chainID (Factory client0), AccountNumber = accountNumber (Factory client0),
             Sequence = sequence (Factory client0)\<rparr>, sig)])"
    by blast+
  from created(3) encoded have signed: "\<exists>txSigned sig.
         EvEncode txSigned \<in> set (issued world0 (snd (broadcast node provisionCreate0 world0)))
         \<and> Signatures txSigned = [(\<lparr>signerChainID = ''mars'', AccountNumber = 0, Sequence = 0\<rparr>, sig)]"
    unfolding base by blast
  from t node_provision_run simulated zero obtain "from" where
    "EvEnsureExists from \<in> set (beforeCalculateGas (issued world0 ?provided))"
    "EvGetAccountNumberSequence from \<in> set (beforeCalculateGas (issued world0 ?provided))"
    by blast
  then have provided: "EvEnsureExists [1, 2, 3] \<in> set (beforeCalculateGas (issued world0 ?provided))
      \<and> EvGetAccountNumberSequence [1, 2, 3] \<in> set (beforeCalculateGas (issued world0 ?provided))"
    by (auto simp: issued_def world0_def beforeCalculateGas_def)
  from created(1,2) signed provided node_provision_create_run node_provision_run show ?thesis
    by blast
qed

subsection \<open>C9: the address-format lock and the signature\<close>

text \<open>
  C9 does not hold of the code. The deferred \<open>mconf.Unlock()\<close> runs when
  \<open>BroadcastTxWithProvision\<close> returns, and the transaction is built and signed in the
  function value it returns, which \<open>BroadcastTx\<close> calls afterwards: whenever \<open>BroadcastTx\<close>
  signs, the mutex has been released before (\<open>BroadcastTx_signs_unlocked\<close>). So the window
  from installing the prefix to signing is not covered. Here one invocation, for the
  prefix \<open>cosmos\<close>, gets its provisioner; a second one, for the prefix \<open>spn\<close>, then gets its
  own, which the free mutex allows; and when the first provisioner signs, the mutex is
  free and the address configuration in force is the second invocation's.
\<close>

theorem provisioner_signs_under_other_prefix:
  "\<exists>wA wB. addressPrefix client0 = ''cosmos'' \<and> addressPrefix clientSpn = ''spn''
      \<and> BroadcastTxWithProvision node client0 ''alice'' msgs0 world0
           = Some (Return (62000, Some provision0, None), wA)
      \<and> \<not> mconf wA \<and> bech32Account wA = (''cosmos'', ''cosmospub'')
      \<and> BroadcastTxWithProvision node clientSpn ''alice'' msgs0 wA
           = Some (Return (62000, Some provision0, None), wB)
      \<and> \<not> mconf wB \<and> bech32Account wB = (''spn'', ''spnpub'')
      \<and> filter isSign (issued wB (snd (broadcast node provision0 wB)))
           = [EvSign (provisionFactory provision0) ''alice'' (''spn'', ''spnpub'')]"
proof -
  let ?wA = "world0\<lparr>trace := [EvAllBalances address0, EvLock,
                                EvSetBech32PrefixForAccount ''cosmos'' ''cosmospub'',
                                EvEnsureExists [1, 2, 3], EvGetAccountNumberSequence [1, 2, 3],
                                EvCalculateGas ((newFactory context0)\<lparr>accountNumber := 7, sequence := 3\<rparr>) msgs0,
                                EvUnlock]\<rparr>"
  let ?wB = "?wA\<lparr>bech32Account := (''spn'', ''spnpub''),
               trace := trace ?wA @ [EvAllBalances ''spn1alice'', EvLock,
                                EvSetBech32PrefixForAccount ''spn'' ''spnpub'',
                                EvEnsureExists [1, 2, 3], EvGetAccountNumberSequence [1, 2, 3],
                                EvCalculateGas ((newFactory context0)\<lparr>accountNumber := 7, sequence := 3\<rparr>) msgs0,
                                EvUnlock]\<rparr>"
  have prefixes: "addressPrefix client0 = ''cosmos'' \<and> addressPrefix clientSpn = ''spn''"
    by (simp add: client0_def clientSpn_def)
  have first: "BroadcastTxWithProvision node client0 ''alice'' msgs0 world0
      = Some (Return (62000, Some provision0, None), ?wA)"
    by (rule node_provision_run)
  have freeA: "\<not> mconf ?wA \<and> bech32Account ?wA = (''cosmos'', ''cosmospub'')"
    by (simp add: world0_def)
  have second: "BroadcastTxWithProvision node clientSpn ''alice'' msgs0 ?wA
      = Some (Return (62000, Some provision0, None), ?wB)"
    by (simp add: BroadcastTxWithProvision_def provisionLocked_def prepareBroadcast_def
      makeSureAccountHasTokens_def checkAccountBalance_def prepareFactory_def Address_def
      Lock_def Unlock_def SetBech32PrefixForAccount_def call_def
      node_def client0_def clientSpn_def alice_def world0_def context0_def newFactory_def
      provision0_def address0_def Let_def Uint64_def word_le_def uint_word_of_int)
  have freeB: "\<not> mconf ?wB \<and> bech32Account ?wB = (''spn'', ''spnpub'')"
    by (simp add: world0_def)
  have signs: "filter isSign (issued ?wB (snd (broadcast node provision0 ?wB)))
      = [EvSign (provisionFactory provision0) ''alice'' (''spn'', ''spnpub'')]"
    by (simp add: broadcast_def BuildUnsignedTx_def Sign_def handleBroadcastResult_def
        call_def issued_def node_def provision0_def accepted_def world0_def Let_def)
  from prefixes first freeA second freeB signs show ?thesis
    by blast
qed

end
